theory Spec2Isabelle
  imports Complex_Main "HOL-Library.AList" "HOL-Library.Sublist" "HOL-Library.Multiset"
begin

section \<open>Python values, dictionaries and exceptions\<close>

text \<open>
  The agent moves dynamically typed data around: dictionaries decoded from the reply of the
  language model, result dictionaries of the browser, page states. \<open>pyval\<close> is the
  universe of these values. A \<open>str\<close> is kept as its UTF-8 byte sequence (substring and
  equality tests on the bytes agree with those on code points), a \<open>float\<close> as the rational
  it denotes (NaN and the infinities are not represented), a \<open>dict\<close> with string keys as an
  association list in insertion order with distinct keys, and any other object (a
  \<open>WebElement\<close>, say) as \<open>PObj\<close> with the name of its class.
\<close>

datatype pyval =
    PNone
  | PBool bool
  | PInt int
  | PFloat rat
  | PStr string
  | PList "pyval list"
  | PTuple "pyval list"
  | PDict "(string \<times> pyval) list"
  | PObj string

type_synonym pydict = "(string \<times> pyval) list"

text \<open>An exception is its class name and the text that \<open>str(e)\<close> gives.\<close>

datatype pyexn = PyExn (exn_class: string) (exn_msg: string)

text \<open>Truth value testing (\<open>if v:\<close>, \<open>not v\<close>).\<close>

fun truthy :: "pyval \<Rightarrow> bool" where
  "truthy PNone = False"
| "truthy (PBool b) = b"
| "truthy (PInt i) = (i \<noteq> 0)"
| "truthy (PFloat x) = (x \<noteq> 0)"
| "truthy (PStr s) = (s \<noteq> [])"
| "truthy (PList xs) = (xs \<noteq> [])"
| "truthy (PTuple xs) = (xs \<noteq> [])"
| "truthy (PDict kvs) = (kvs \<noteq> [])"
| "truthy (PObj c) = True"

text \<open>\<open>k in d\<close>, \<open>d.get(k, default)\<close>, \<open>d.get(k)\<close> and \<open>d[k] = v\<close> on a dictionary.\<close>

definition has_key :: "pydict \<Rightarrow> string \<Rightarrow> bool" where
  "has_key d k = (map_of d k \<noteq> None)"

definition dict_get :: "pydict \<Rightarrow> string \<Rightarrow> pyval \<Rightarrow> pyval" where
  "dict_get d k dflt = (case map_of d k of None \<Rightarrow> dflt | Some v \<Rightarrow> v)"

definition dict_set :: "pydict \<Rightarrow> string \<Rightarrow> pyval \<Rightarrow> pydict" where
  "dict_set d k v = AList.update k v d"

text \<open>
  \<open>x.get(k, default)\<close> on an arbitrary value: only a dictionary has the method, every other
  value of the universe raises \<open>AttributeError\<close>.
\<close>

definition no_attribute :: "string \<Rightarrow> string \<Rightarrow> pyexn" where
  "no_attribute cls attr =
     PyExn ''AttributeError'' ([CHR 0x27] @ cls @ [CHR 0x27] @ '' object has no attribute '' @
       [CHR 0x27] @ attr @ [CHR 0x27])"

fun class_name :: "pyval \<Rightarrow> string" where
  "class_name PNone = ''NoneType''"
| "class_name (PBool b) = ''bool''"
| "class_name (PInt i) = ''int''"
| "class_name (PFloat x) = ''float''"
| "class_name (PStr s) = ''str''"
| "class_name (PList xs) = ''list''"
| "class_name (PTuple xs) = ''tuple''"
| "class_name (PDict kvs) = ''dict''"
| "class_name (PObj c) = c"

definition py_get :: "pyval \<Rightarrow> string \<Rightarrow> pyval \<Rightarrow> pyexn + pyval" where
  "py_get x k dflt =
     (case x of PDict d \<Rightarrow> Inr (dict_get d k dflt)
      | _ \<Rightarrow> Inl (no_attribute (class_name x) ''get''))"

text \<open>Hashability, as \<open>dict.get(key)\<close> needs it of its key.\<close>

fun hashable :: "pyval \<Rightarrow> bool" where
  "hashable (PList xs) = False"
| "hashable (PDict kvs) = False"
| "hashable (PTuple xs) = list_all hashable xs"
| "hashable v = True"

section \<open>What lies outside the repository\<close>

text \<open>
  Library functions and the keyword parser are parameters of the model, collected in the
  record \<open>externals\<close>.

  \<^item> \<open>json_loads\<close> is \<open>json.loads\<close> on a text that begins with an opening brace, the only
    use the agent makes of it: it returns a dictionary, or raises \<open>JSONDecodeError\<close>
    (\<open>None\<close>). Resource exhaustion of the interpreter is not modelled.
  \<^item> \<open>str_of\<close> is \<open>str(v)\<close>, as an f-string applies it to a value that is not a \<open>str\<close>.
  \<^item> \<open>lower\<close> is \<open>str.lower\<close>.
  \<^item> \<open>md5_hexdigest\<close> is \<open>hashlib.md5(s.encode()).hexdigest()\<close>.
  \<^item> \<open>set_order\<close> is the order in which \<open>list(set(xs))\<close> enumerates the distinct elements
    of \<open>xs\<close> (it is applied to \<open>remdups xs\<close>).
  \<^item> \<open>parse_action_from_llm\<close> is \<open>ActionTools.parse_action_from_llm\<close>, the keyword and
    regular-expression classifier of free text. It returns an \<open>Action\<close> or \<open>None\<close> and
    raises nothing (its only fallible calls sit under a bare \<open>except\<close>); which texts it
    recognises plays no role below, so it is left open.
\<close>

text \<open>
  The dataclass \<open>Action\<close> of tools/action\_tools.py. Its type is a \<open>str\<close>, as declared: it
  is looked up as a dictionary key. The other fields are only stored and passed on, so they
  may hold any value.
\<close>

record Action =
  atype :: string
  description :: pyval
  parameters :: pyval
  confidence :: pyval

record externals =
  json_loads :: "string \<Rightarrow> pydict option"
  str_of :: "pyval \<Rightarrow> string"
  lower :: "string \<Rightarrow> string"
  md5_hexdigest :: "string \<Rightarrow> string"
  set_order :: "string list \<Rightarrow> string list"
  parse_action_from_llm :: "string \<Rightarrow> Action option"

text \<open>The text of an f-string field \<open>{v}\<close>.\<close>

definition fmt :: "externals \<Rightarrow> pyval \<Rightarrow> string" where
  "fmt lib v = (case v of PStr s \<Rightarrow> s | _ \<Rightarrow> str_of lib v)"

section \<open>Actions (tools/action\_tools.py)\<close>

text \<open>An action is executed by looking its type up in a table of browser method names.\<close>

definition ACTION_MAPPING :: "(string \<times> string) list" where
  "ACTION_MAPPING =
     [(''navigate'', ''navigate_to''),
      (''click'', ''click_element''),
      (''type'', ''type_text''),
      (''press_key'', ''press_key''),
      (''scroll'', ''scroll''),
      (''go_back'', ''go_back''),
      (''refresh'', ''refresh''),
      (''screenshot'', ''take_screenshot''),
      (''execute_js'', ''execute_javascript''),
      (''wait'', ''wait'')]"

definition unknown_type_message :: string where
  "unknown_type_message =
     [CHR 0xD0, CHR 0x9D, CHR 0xD0, CHR 0xB5, CHR 0xD0, CHR 0xB8, CHR 0xD0, CHR 0xB7, CHR 0xD0,
       CHR 0xB2, CHR 0xD0, CHR 0xB5, CHR 0xD1, CHR 0x81, CHR 0xD1, CHR 0x82, CHR 0xD0,
       CHR 0xBD, CHR 0xD1, CHR 0x8B, CHR 0xD0, CHR 0xB9] @ '' '' @ [CHR 0xD1, CHR 0x82,
       CHR 0xD0, CHR 0xB8, CHR 0xD0, CHR 0xBF] @ '' '' @ [CHR 0xD0, CHR 0xB4, CHR 0xD0,
       CHR 0xB5, CHR 0xD0, CHR 0xB9, CHR 0xD1, CHR 0x81, CHR 0xD1, CHR 0x82, CHR 0xD0,
       CHR 0xB2, CHR 0xD0, CHR 0xB8, CHR 0xD1, CHR 0x8F] @ '': ''"

definition execution_error_message :: string where
  "execution_error_message =
     [CHR 0xD0, CHR 0x9E, CHR 0xD1, CHR 0x88, CHR 0xD0, CHR 0xB8, CHR 0xD0, CHR 0xB1, CHR 0xD0,
       CHR 0xBA, CHR 0xD0, CHR 0xB0] @ '' '' @
       [CHR 0xD0, CHR 0xBF, CHR 0xD1, CHR 0x80, CHR 0xD0, CHR 0xB8] @ '' '' @ [CHR 0xD0,
         CHR 0xB2, CHR 0xD1, CHR 0x8B, CHR 0xD0, CHR 0xBF, CHR 0xD0, CHR 0xBE, CHR 0xD0,
         CHR 0xBB, CHR 0xD0, CHR 0xBD, CHR 0xD0, CHR 0xB5, CHR 0xD0, CHR 0xBD, CHR 0xD0,
         CHR 0xB8, CHR 0xD0, CHR 0xB8] @ '' '' @ [CHR 0xD0, CHR 0xB4, CHR 0xD0, CHR 0xB5,
         CHR 0xD0, CHR 0xB9, CHR 0xD1, CHR 0x81, CHR 0xD1, CHR 0x82, CHR 0xD0, CHR 0xB2,
         CHR 0xD0, CHR 0xB8, CHR 0xD1, CHR 0x8F] @ '': ''"

text \<open>
  The collaborators of a run are state transformers on a world \<open>'w\<close> that the model never
  inspects: the language model (\<open>llm.generate(...).content\<close>; the prompt is not modelled, an
  arbitrary transformer covers every way the reply may depend on it), the browser
  (\<open>get_page_state\<close>, which catches every exception itself, and
  \<open>getattr(browser, name)(**params)\<close>, where \<open>None\<close> stands for the call without
  arguments; a method of \<open>BrowserController\<close> that returns, returns a dictionary), and
  the clock. The model threads the world together with the number of calls
  made to the language model so far.
\<close>

record page_state =
  ps_url :: string
  ps_title :: string
  ps_page_type :: string
  ps_elements :: "string list"
  ps_visible_text_preview :: string
  ps_element_count :: int

record 'w collaborators =
  llm_generate :: "'w \<Rightarrow> (pyexn + string) \<times> 'w"
  get_page_state :: "'w \<Rightarrow> page_state \<times> 'w"
  browser_method :: "string \<Rightarrow> pyval option \<Rightarrow> 'w \<Rightarrow> (pyexn + pydict) \<times> 'w"
  now_isoformat :: "'w \<Rightarrow> string \<times> 'w"

type_synonym 'w sys = "'w \<times> nat"

definition generate :: "'w collaborators \<Rightarrow> 'w sys \<Rightarrow> (pyexn + string) \<times> 'w sys" where
  "generate env s =
     (case llm_generate env (fst s) of (r, w') \<Rightarrow> (r, (w', Suc (snd s))))"

definition page_state_of :: "'w collaborators \<Rightarrow> 'w sys \<Rightarrow> page_state \<times> 'w sys" where
  "page_state_of env s =
     (case get_page_state env (fst s) of (r, w') \<Rightarrow> (r, (w', snd s)))"

definition call_browser ::
  "'w collaborators \<Rightarrow> string \<Rightarrow> pyval option \<Rightarrow> 'w sys \<Rightarrow> (pyexn + pydict) \<times> 'w sys" where
  "call_browser env name args s =
     (case browser_method env name args (fst s) of (r, w') \<Rightarrow> (r, (w', snd s)))"

definition now :: "'w collaborators \<Rightarrow> 'w sys \<Rightarrow> string \<times> 'w sys" where
  "now env s = (case now_isoformat env (fst s) of (r, w') \<Rightarrow> (r, (w', snd s)))"

text \<open>
  \<open>ActionTools.execute_action\<close>. The result is a sum so that an exception leaving the
  function would be a value \<open>Inl\<close>.
\<close>

text \<open>The argument of \<open>unknown_action_result\<close> is the action type as an f-string shows it.\<close>

definition unknown_action_result :: "string \<Rightarrow> pydict" where
  "unknown_action_result t =
     [(''success'', PBool False),
      (''error'', PStr (''Unknown action type: '' @ t)),
      (''message'', PStr (unknown_type_message @ t))]"

definition failed_action_result :: "pyexn \<Rightarrow> string \<Rightarrow> pydict" where
  "failed_action_result e t =
     [(''success'', PBool False),
      (''error'', PStr (exn_msg e)),
      (''message'', PStr (execution_error_message @ t))]"

definition execute_action ::
  "'w collaborators \<Rightarrow> Action \<Rightarrow> 'w sys \<Rightarrow> (pyexn + pydict) \<times> 'w sys" where
  "execute_action env action s =
     (case map_of ACTION_MAPPING (atype action) of
        None \<Rightarrow> (Inr (unknown_action_result (atype action)), s)
      | Some method_name \<Rightarrow>
          if method_name = [] then (Inr (unknown_action_result (atype action)), s)
          else
            (case call_browser env method_name
                    (if truthy (parameters action) then Some (parameters action) else None) s of
               (Inl e, s') \<Rightarrow> (Inr (failed_action_result e (atype action)), s')
             | (Inr returned, s') \<Rightarrow> (Inr returned, s')))"

section \<open>Deciding the next action (agents/browser\_agent.py)\<close>

text \<open>
  \<open>re.search(r'\{.*\}', response, re.DOTALL)\<close>: the match starts at the first opening
  brace and, the star being greedy and the dot matching every character, ends at the last
  closing brace after it; there is no match when the text has no opening brace or no closing
  brace behind the first opening one.
\<close>

definition search_braces :: "string \<Rightarrow> string option" where
  "search_braces response =
     (let from_open = dropWhile (\<lambda>c. c \<noteq> CHR ''{'') response in
      if from_open = [] then None
      else if CHR ''}'' \<notin> set (tl from_open) then None
      else Some (CHR ''{'' # rev (dropWhile (\<lambda>c. c \<noteq> CHR ''}'') (rev (tl from_open)))))"

definition text_analysis_reasoning :: string where
  "text_analysis_reasoning =
     [CHR 0xD0, CHR 0x9E, CHR 0xD0, CHR 0xBF, CHR 0xD1, CHR 0x80, CHR 0xD0, CHR 0xB5, CHR 0xD0,
       CHR 0xB4, CHR 0xD0, CHR 0xB5, CHR 0xD0, CHR 0xBB, CHR 0xD0, CHR 0xB5, CHR 0xD0,
       CHR 0xBD, CHR 0xD0, CHR 0xBE] @ '' '' @ [CHR 0xD0, CHR 0xBD, CHR 0xD0, CHR 0xB0] @
       '' '' @ [CHR 0xD0, CHR 0xBE, CHR 0xD1, CHR 0x81, CHR 0xD0, CHR 0xBD, CHR 0xD0, CHR 0xBE,
         CHR 0xD0, CHR 0xB2, CHR 0xD0, CHR 0xB5] @ '' '' @ [CHR 0xD1, CHR 0x82, CHR 0xD0,
         CHR 0xB5, CHR 0xD0, CHR 0xBA, CHR 0xD1, CHR 0x81, CHR 0xD1, CHR 0x82, CHR 0xD0,
         CHR 0xBE, CHR 0xD0, CHR 0xB2, CHR 0xD0, CHR 0xBE, CHR 0xD0, CHR 0xB3, CHR 0xD0,
         CHR 0xBE] @ '' '' @ [CHR 0xD0, CHR 0xB0, CHR 0xD0, CHR 0xBD, CHR 0xD0, CHR 0xB0,
         CHR 0xD0, CHR 0xBB, CHR 0xD0, CHR 0xB8, CHR 0xD0, CHR 0xB7, CHR 0xD0, CHR 0xB0]"

text \<open>
  \<open>BrowserAgent._parse_llm_response\<close>. The structural branch is the one where
  \<open>json.loads\<close> returns; the branch under \<open>except json.JSONDecodeError\<close> hands the whole
  response to the keyword parser.
\<close>

definition parse_llm_response :: "externals \<Rightarrow> string \<Rightarrow> pydict option" where
  "parse_llm_response ext response =
     (case search_braces response of
        None \<Rightarrow> None
      | Some json_match \<Rightarrow>
          (case json_loads ext json_match of
             Some action_data \<Rightarrow>
               if \<not> has_key action_data ''action'' \<or> \<not> has_key action_data ''description''
               then None
               else
                 let with_parameters =
                       (if \<not> has_key action_data ''parameters''
                        then dict_set action_data ''parameters'' (PDict [])
                        else action_data);
                     with_confidence =
                       (if \<not> has_key with_parameters ''confidence''
                        then dict_set with_parameters ''confidence'' (PFloat 0.8)
                        else with_parameters)
                 in Some with_confidence
           | None \<Rightarrow>
               (case parse_action_from_llm ext response of
                  Some action \<Rightarrow>
                    Some [(''action'', PStr (atype action)),
                          (''description'', description action),
                          (''parameters'', parameters action),
                          (''confidence'', confidence action),
                          (''reasoning'', PStr text_analysis_reasoning)]
                | None \<Rightarrow> None)))"

definition analyze_description :: string where
  "analyze_description =
     [CHR 0xD0, CHR 0x9F, CHR 0xD1, CHR 0x80, CHR 0xD0, CHR 0xBE, CHR 0xD0, CHR 0xB0, CHR 0xD0,
       CHR 0xBD, CHR 0xD0, CHR 0xB0, CHR 0xD0, CHR 0xBB, CHR 0xD0, CHR 0xB8, CHR 0xD0,
       CHR 0xB7, CHR 0xD0, CHR 0xB8, CHR 0xD1, CHR 0x80, CHR 0xD0, CHR 0xBE, CHR 0xD0,
       CHR 0xB2, CHR 0xD0, CHR 0xB0, CHR 0xD1, CHR 0x82, CHR 0xD1, CHR 0x8C] @ '' '' @
       [CHR 0xD1, CHR 0x82, CHR 0xD0, CHR 0xB5, CHR 0xD0, CHR 0xBA, CHR 0xD1, CHR 0x83,
       CHR 0xD1, CHR 0x89, CHR 0xD1, CHR 0x83, CHR 0xD1, CHR 0x8E] @ '' '' @ [CHR 0xD1,
       CHR 0x81, CHR 0xD0, CHR 0xB8, CHR 0xD1, CHR 0x82, CHR 0xD1, CHR 0x83, CHR 0xD0,
       CHR 0xB0, CHR 0xD1, CHR 0x86, CHR 0xD0, CHR 0xB8, CHR 0xD1, CHR 0x8E]"

definition analyze_reasoning :: string where
  "analyze_reasoning =
     [CHR 0xD0, CHR 0x9D, CHR 0xD0, CHR 0xB5] @ '' '' @ [CHR 0xD1, CHR 0x83, CHR 0xD0,
       CHR 0xB4, CHR 0xD0, CHR 0xB0, CHR 0xD0, CHR 0xBB, CHR 0xD0, CHR 0xBE, CHR 0xD1,
       CHR 0x81, CHR 0xD1, CHR 0x8C] @ '' '' @ [CHR 0xD1, CHR 0x80, CHR 0xD0, CHR 0xB0,
       CHR 0xD1, CHR 0x81, CHR 0xD0, CHR 0xBF, CHR 0xD0, CHR 0xBE, CHR 0xD0, CHR 0xB7,
       CHR 0xD0, CHR 0xBD, CHR 0xD0, CHR 0xB0, CHR 0xD1, CHR 0x82, CHR 0xD1, CHR 0x8C] @
       '' '' @ [CHR 0xD1, CHR 0x81, CHR 0xD0, CHR 0xBB, CHR 0xD0, CHR 0xB5, CHR 0xD0, CHR 0xB4,
       CHR 0xD1, CHR 0x83, CHR 0xD1, CHR 0x8E, CHR 0xD1, CHR 0x89, CHR 0xD0, CHR 0xB5,
       CHR 0xD0, CHR 0xB5] @ '' '' @ [CHR 0xD0, CHR 0xB4, CHR 0xD0, CHR 0xB5, CHR 0xD0,
       CHR 0xB9, CHR 0xD1, CHR 0x81, CHR 0xD1, CHR 0x82, CHR 0xD0, CHR 0xB2, CHR 0xD0,
       CHR 0xB8, CHR 0xD0, CHR 0xB5]"

definition default_analyze_action :: pydict where
  "default_analyze_action =
     [(''action'', PStr ''analyze''),
      (''description'', PStr analyze_description),
      (''parameters'', PDict []),
      (''confidence'', PFloat 1.0),
      (''reasoning'', PStr analyze_reasoning)]"

text \<open>
  \<open>BrowserAgent.decide_next_action\<close>. Everything from the call of the language model on
  is under \<open>try\<close>; the handler returns \<open>None\<close>. \<open>not action_data\<close> is true of \<open>None\<close>
  and of the empty dictionary.
\<close>

definition decide_next_action ::
  "externals \<Rightarrow> 'w collaborators \<Rightarrow> 'w sys \<Rightarrow> pydict option \<times> 'w sys" where
  "decide_next_action ext env s =
     (case generate env s of
        (Inl e, s') \<Rightarrow> (None, s')
      | (Inr content, s') \<Rightarrow>
          (case parse_llm_response ext content of
             None \<Rightarrow> (Some default_analyze_action, s')
           | Some action_data \<Rightarrow>
               if action_data = [] then (Some default_analyze_action, s')
               else (Some action_data, s')))"

section \<open>The action history (memory/context\_manager.py)\<close>

text \<open>
  \<open>ActionRecord\<close> and \<open>TaskContext\<close>. The action type and the description of a record
  are whatever the decoded reply supplied: nothing converts or checks them on the way. The
  result is the dictionary that the execution returned.
\<close>

record ActionRecord =
  timestamp :: string
  action_type :: pyval
  action_description :: pyval
  result :: pydict
  page_state :: page_state

record TaskContext =
  task_description :: string
  start_time :: string
  tc_current_step :: int
  goal :: string
  constraints :: "string list"
  progress :: string

record ContextManager =
  action_history :: "ActionRecord list"
  max_history :: nat
  current_task :: "TaskContext option"
  system_context :: "string list"

text \<open>\<open>deque(maxlen=n).append(x)\<close>: the oldest entries leave when the deque is full.\<close>

definition deque_append :: "nat \<Rightarrow> 'a list \<Rightarrow> 'a \<Rightarrow> 'a list" where
  "deque_append maxlen xs x = (let ys = xs @ [x] in drop (length ys - maxlen) ys)"

definition msg_step :: string where
  "msg_step =
     [CHR 0xD0, CHR 0xA8, CHR 0xD0, CHR 0xB0, CHR 0xD0, CHR 0xB3] @ '' ''"

definition msg_step_done :: string where
  "msg_step_done =
     '' '' @ [CHR 0xD0, CHR 0xB2, CHR 0xD1, CHR 0x8B, CHR 0xD0, CHR 0xBF, CHR 0xD0, CHR 0xBE,
       CHR 0xD0, CHR 0xBB, CHR 0xD0, CHR 0xBD, CHR 0xD0, CHR 0xB5, CHR 0xD0, CHR 0xBD] @
       '': ''"

definition msg_step_failed :: string where
  "msg_step_failed =
     '' '' @ [CHR 0xD0, CHR 0xBD, CHR 0xD0, CHR 0xB5] @ '' '' @ [CHR 0xD1, CHR 0x83, CHR 0xD0,
       CHR 0xB4, CHR 0xD0, CHR 0xB0, CHR 0xD0, CHR 0xBB, CHR 0xD1, CHR 0x81, CHR 0xD1,
       CHR 0x8F] @ '': ''"

text \<open>
  \<open>ContextManager.add_action\<close>: the record is appended and, with a current task, its step
  is counted and its progress note written.
\<close>

definition add_action ::
  "externals \<Rightarrow> string \<Rightarrow> pyval \<Rightarrow> pyval \<Rightarrow> pydict \<Rightarrow> page_state \<Rightarrow> ContextManager \<Rightarrow>
     ContextManager" where
  "add_action ext ts a_type a_description a_result a_page_state cm =
     (let record = \<lparr>timestamp = ts, action_type = a_type, action_description = a_description,
                     result = a_result, page_state = a_page_state\<rparr>;
          cm1 = cm\<lparr>action_history := deque_append (max_history cm) (action_history cm) record\<rparr>
      in case current_task cm1 of
           None \<Rightarrow> cm1
         | Some task \<Rightarrow>
             let task1 = task\<lparr>tc_current_step := tc_current_step task + 1\<rparr>
             in cm1\<lparr>current_task := Some (task1\<lparr>progress :=
                  msg_step @ str_of ext (PInt (tc_current_step task1)) @
                  (if truthy (dict_get a_result ''success'' PNone)
                   then msg_step_done else msg_step_failed) @
                  fmt ext a_description\<rparr>)\<rparr>)"

text \<open>\<open>xs[-n:]\<close> for a positive \<open>n\<close>, and \<open>get_recent_actions\<close>.\<close>

definition last_n :: "nat \<Rightarrow> 'a list \<Rightarrow> 'a list" where
  "last_n n xs = drop (length xs - n) xs"

definition get_recent_actions :: "ContextManager \<Rightarrow> nat \<Rightarrow> ActionRecord list" where
  "get_recent_actions cm n = last_n n (action_history cm)"

definition add_system_context :: "ContextManager \<Rightarrow> string \<Rightarrow> ContextManager" where
  "add_system_context cm context = cm\<lparr>system_context := system_context cm @ [context]\<rparr>"

section \<open>Reflection (patterns/reflection\_pattern.py)\<close>

record ReflectionResult =
  needs_correction :: bool
  correction_plan :: "string option"
  learned_lesson :: "string option"
  confidence_score :: rat

text \<open>
  The post-processing of the analysis text (keyword search, regular expressions with
  look-ahead, floating-point discounts) is left open: it maps the text, and the number of
  failures, to the four fields of the result.
\<close>

record analysis_functions =
  detect_correction_needed :: "string \<Rightarrow> bool"
  extract_correction_plan :: "string \<Rightarrow> string option"
  extract_lesson :: "string \<Rightarrow> string option"
  calculate_confidence :: "string \<Rightarrow> nat \<Rightarrow> rat"

text \<open>
  The loop of \<open>analyze_failure\<close> over \<open>action_history[-5:]\<close>. Each entry is asked for its
  \<open>result\<close> with \<open>.get\<close>, and the result for its \<open>success\<close>; an entry or a result without
  that method raises \<open>AttributeError\<close> and ends the loop.
\<close>

fun recent_failures :: "pyval list \<Rightarrow> pyexn + pydict list" where
  "recent_failures [] = Inr []"
| "recent_failures (action # rest) =
     (case py_get action ''result'' (PDict []) of
        Inl e \<Rightarrow> Inl e
      | Inr res \<Rightarrow>
          (case py_get res ''success'' (PBool False) of
             Inl e \<Rightarrow> Inl e
           | Inr ok \<Rightarrow>
               (case recent_failures rest of
                  Inl e \<Rightarrow> Inl e
                | Inr failures \<Rightarrow>
                    if \<not> truthy ok
                    then Inr ([(''action'', (case py_get action ''action_description'' PNone of
                                               Inr d \<Rightarrow> d | Inl e \<Rightarrow> PNone)),
                               (''error'', (case py_get res ''error'' (PStr ''unknown'') of
                                              Inr d \<Rightarrow> d | Inl e \<Rightarrow> PNone)),
                               (''message'', (case py_get res ''message'' (PStr '''') of
                                                Inr d \<Rightarrow> d | Inl e \<Rightarrow> PNone))] # failures)
                    else Inr failures)))"

definition no_correction :: ReflectionResult where
  "no_correction =
     \<lparr>needs_correction = False, correction_plan = None, learned_lesson = None,
      confidence_score = 1\<rparr>"

text \<open>
  \<open>ReflectionPattern.analyze_failure\<close>. Without a recent failure it returns before the
  prompt is built; otherwise the language model is asked once, and an exception of that
  call gives the result without correction.
\<close>

definition analyze_failure ::
  "analysis_functions \<Rightarrow> 'w collaborators \<Rightarrow> pyval list \<Rightarrow> page_state \<Rightarrow> string \<Rightarrow> 'w sys \<Rightarrow>
     (pyexn + ReflectionResult) \<times> 'w sys" where
  "analyze_failure af env history current_state task_text s =
     (case recent_failures (last_n 5 history) of
        Inl e \<Rightarrow> (Inl e, s)
      | Inr failures \<Rightarrow>
          if failures = [] then (Inr no_correction, s)
          else
            (case generate env s of
               (Inl e, s') \<Rightarrow> (Inr no_correction, s')
             | (Inr analysis, s') \<Rightarrow>
                 (Inr \<lparr>needs_correction = detect_correction_needed af analysis,
                       correction_plan = extract_correction_plan af analysis,
                       learned_lesson = extract_lesson af analysis,
                       confidence_score = calculate_confidence af analysis (length failures)\<rparr>,
                  s')))"

section \<open>Episodic memory (memory/episodic\_memory.py)\<close>

text \<open>
  The dataclass \<open>Episode\<close> with its declared field types (\<open>eid\<close> is the field \<open>id\<close>,
  \<open>ep_timestamp\<close> the field \<open>timestamp\<close>); an action is a dictionary with values of any
  kind.
\<close>

record Episode =
  eid :: string
  url :: string
  title :: string
  page_type :: string
  actions :: "pydict list"
  ep_timestamp :: string
  success :: bool
  learned_patterns :: "string list"

text \<open>
  The backing file holds a JSON document, or nothing, or text that is no JSON document (what
  an interrupted \<open>json.dump\<close> leaves behind, the file having been truncated on opening).
\<close>

datatype json =
    JNull
  | JBool bool
  | JInt int
  | JFloat rat
  | JStr string
  | JArr "json list"
  | JObj "(string \<times> json) list"

datatype storage = Absent | Document json | Garbage

record EpisodicMemory =
  episodes :: "Episode list"
  patterns :: "(string \<times> int) list"
  storage_file :: storage

subsection \<open>Retrieval\<close>

text \<open>
  The score that the loop of \<open>find_similar_episodes\<close> gives an episode. \<open>url and url in
  episode.url\<close> is false for \<open>None\<close> and for the empty string; so is \<open>page_type and ...\<close>.
\<close>

definition score :: "string option \<Rightarrow> string option \<Rightarrow> Episode \<Rightarrow> int" where
  "score q_url q_page_type episode =
     (if (case q_url of None \<Rightarrow> False | Some u \<Rightarrow> u \<noteq> [] \<and> sublist u (url episode))
      then 2 else 0) +
     (if (case q_page_type of None \<Rightarrow> False | Some p \<Rightarrow> p \<noteq> [] \<and> page_type episode = p)
      then 1 else 0) +
     (if success episode then 1 else 0)"

text \<open>
  \<open>xs.sort(key=f, reverse=True)\<close>: the list is reversed, sorted stably in ascending order
  of the key, and reversed again. \<open>xs[:n]\<close> for any integer \<open>n\<close>.
\<close>

definition sort_reverse :: "('a \<Rightarrow> int) \<Rightarrow> 'a list \<Rightarrow> 'a list" where
  "sort_reverse key xs = rev (sort_key key (rev xs))"

definition slice_to :: "int \<Rightarrow> 'a list \<Rightarrow> 'a list" where
  "slice_to n xs = (if 0 \<le> n then take (nat n) xs else take (length xs - nat (- n)) xs)"

definition find_similar_episodes ::
  "EpisodicMemory \<Rightarrow> string option \<Rightarrow> string option \<Rightarrow> int \<Rightarrow> Episode list" where
  "find_similar_episodes em q_url q_page_type max_results =
     (let scored_episodes =
            filter (\<lambda>p. fst p > 0) (map (\<lambda>ep. (score q_url q_page_type ep, ep)) (episodes em))
      in map snd (slice_to max_results (sort_reverse fst scored_episodes)))"

text \<open>
  \<open>EpisodicMemory.get_advice\<close> renders up to three similar episodes as text. On the way it
  asks the \<open>result\<close> of each of the last five actions of such an episode for its
  \<open>success\<close> with \<open>.get\<close>; \<open>advice_error\<close> is the exception this raises, if any.
\<close>

fun first_error :: "(pyexn + 'a) list \<Rightarrow> pyexn option" where
  "first_error [] = None"
| "first_error (Inl e # rest) = Some e"
| "first_error (Inr x # rest) = first_error rest"

definition advice_error :: "EpisodicMemory \<Rightarrow> page_state \<Rightarrow> pyexn option" where
  "advice_error em current_state =
     first_error (concat (map
       (\<lambda>episode. map (\<lambda>action. py_get (dict_get action ''result'' (PDict [])) ''success'' PNone)
                    (last_n 5 (actions episode)))
       (take 3 (find_similar_episodes em None (Some (ps_page_type current_state)) 5))))"

subsection \<open>Adding an episode\<close>

definition generate_id :: "externals \<Rightarrow> string \<Rightarrow> string \<Rightarrow> pydict list \<Rightarrow> string" where
  "generate_id ext u t acts =
     take 8 (md5_hexdigest ext (u @ ''_'' @ t @ ''_'' @ str_of ext (PInt (int (length acts)))))"

text \<open>\<open>v.lower()\<close> and \<open>needle in v\<close> for a value of any kind.\<close>

definition py_lower :: "externals \<Rightarrow> pyval \<Rightarrow> pyexn + string" where
  "py_lower ext v =
     (case v of PStr s \<Rightarrow> Inr (lower ext s)
      | _ \<Rightarrow> Inl (no_attribute (class_name v) ''lower''))"

definition py_in :: "string \<Rightarrow> pyval \<Rightarrow> pyexn + bool" where
  "py_in needle v =
     (case v of
        PStr s \<Rightarrow> Inr (sublist needle s)
      | PList xs \<Rightarrow> Inr (PStr needle \<in> set xs)
      | PTuple xs \<Rightarrow> Inr (PStr needle \<in> set xs)
      | PDict d \<Rightarrow> Inr (has_key d needle)
      | _ \<Rightarrow> Inl (PyExn ''TypeError''
                 (''argument of type '' @ [CHR 0x27] @ class_name v @ [CHR 0x27] @
                  '' is not iterable'')))"

text \<open>
  The loop of \<open>_extract_patterns\<close> over the consecutive pairs of actions, and the function
  itself, which ends with \<open>list(set(patterns))\<close>.
\<close>

fun pair_patterns :: "externals \<Rightarrow> pydict list \<Rightarrow> pyexn + string list" where
  "pair_patterns ext (action1 # action2 # rest) =
     (let pattern = fmt ext (dict_get action1 ''action_type'' PNone) @ '' -> '' @
                    fmt ext (dict_get action2 ''action_type'' PNone)
      in case py_lower ext (dict_get action1 ''action_description'' (PStr [])) of
           Inl e \<Rightarrow> Inl e
         | Inr d \<Rightarrow>
             (case py_in ''click'' (dict_get action1 ''action_type'' (PStr [])) of
                Inl e \<Rightarrow> Inl e
              | Inr c \<Rightarrow>
                  (case (if c then py_in ''type'' (dict_get action2 ''action_type'' (PStr []))
                         else Inr False) of
                     Inl e \<Rightarrow> Inl e
                   | Inr t \<Rightarrow>
                       (case pair_patterns ext (action2 # rest) of
                          Inl e \<Rightarrow> Inl e
                        | Inr later \<Rightarrow>
                            Inr ([pattern] @
                                 (if sublist ''login'' d then [''login_sequence''] else []) @
                                 (if sublist ''search'' d then [''search_sequence''] else []) @
                                 (if t then [''click_then_type''] else []) @
                                 later)))))"
| "pair_patterns ext acts = Inr []"

definition extract_patterns :: "externals \<Rightarrow> pydict list \<Rightarrow> pyexn + string list" where
  "extract_patterns ext acts =
     (case pair_patterns ext acts of
        Inl e \<Rightarrow> Inl e
      | Inr ps \<Rightarrow> Inr (set_order ext (remdups ps)))"

subsection \<open>The snapshot\<close>

text \<open>
  \<open>json.dump\<close> as a partial map from values to documents (\<open>None\<close>: \<open>TypeError\<close>, the value is
  not serialisable; a tuple is written as an array), and \<open>json.load\<close> as a map from
  documents to values (of a repeated key the last value is kept, at the place of the first).
\<close>

fun json_encode :: "pyval \<Rightarrow> json option" where
  "json_encode PNone = Some JNull"
| "json_encode (PBool b) = Some (JBool b)"
| "json_encode (PInt i) = Some (JInt i)"
| "json_encode (PFloat x) = Some (JFloat x)"
| "json_encode (PStr s) = Some (JStr s)"
| "json_encode (PList xs) = map_option JArr (those (map json_encode xs))"
| "json_encode (PTuple xs) = map_option JArr (those (map json_encode xs))"
| "json_encode (PDict kvs) =
     map_option JObj (those (map (\<lambda>(k, v). map_option (Pair k) (json_encode v)) kvs))"
| "json_encode (PObj c) = None"



text \<open>\<open>Episode.to_dict\<close>, that is \<open>dataclasses.asdict\<close>.\<close>

definition to_dict :: "Episode \<Rightarrow> pyval" where
  "to_dict ep =
     PDict [(''id'', PStr (eid ep)),
            (''url'', PStr (url ep)),
            (''title'', PStr (title ep)),
            (''page_type'', PStr (page_type ep)),
            (''actions'', PList (map PDict (actions ep))),
            (''timestamp'', PStr (ep_timestamp ep)),
            (''success'', PBool (success ep)),
            (''learned_patterns'', PList (map PStr (learned_patterns ep)))]"

text \<open>
  \<open>EpisodicMemory.save\<close>: an exception of \<open>json.dump\<close> is printed; the file was truncated
  when it was opened and holds the text written until then.
\<close>

definition save :: "EpisodicMemory \<Rightarrow> EpisodicMemory" where
  "save em =
     (let data = PDict [(''episodes'', PList (map to_dict (episodes em))),
                        (''patterns'', PDict (map (\<lambda>(k, n). (k, PInt n)) (patterns em)))]
      in em\<lparr>storage_file := (case json_encode data of Some j \<Rightarrow> Document j | None \<Rightarrow> Garbage)\<rparr>)"














text \<open>\<open>EpisodicMemory.add_episode\<close>.\<close>

definition count_pattern :: "(string \<times> int) list \<Rightarrow> string \<Rightarrow> (string \<times> int) list" where
  "count_pattern ps pattern =
     AList.update pattern ((case map_of ps pattern of None \<Rightarrow> 0 | Some c \<Rightarrow> c) + 1) ps"

definition add_episode ::
  "externals \<Rightarrow> 'w collaborators \<Rightarrow> string \<Rightarrow> string \<Rightarrow> string \<Rightarrow> pydict list \<Rightarrow> bool \<Rightarrow>
     EpisodicMemory \<Rightarrow> 'w sys \<Rightarrow> (pyexn + Episode \<times> EpisodicMemory) \<times> 'w sys" where
  "add_episode ext env u t pt acts ok em s =
     (let episode_id = generate_id ext u t acts in
      case extract_patterns ext acts of
        Inl e \<Rightarrow> (Inl e, s)
      | Inr learned \<Rightarrow>
          (case now env s of
             (ts, s1) \<Rightarrow>
               let episode = \<lparr>eid = episode_id, url = u, title = t, page_type = pt,
                               actions = acts, ep_timestamp = ts, success = ok,
                               learned_patterns = learned\<rparr>;
                   em1 = em\<lparr>episodes := episodes em @ [episode]\<rparr>;
                   em2 = em1\<lparr>patterns := foldl count_pattern (patterns em1) learned\<rparr>
               in (Inr (episode, save em2), s1)))"

section \<open>The agent (config.py, agents/browser\_agent.py)\<close>

text \<open>
  \<open>BrowserAgent\<close> reads two attributes of the configuration object it is given:
  \<open>MAX_STEPS\<close> and \<open>ENABLE_REFLECTION\<close>. An attribute that the object does not have is
  \<open>None\<close> here; reading it raises \<open>AttributeError\<close>. The class \<open>Config\<close> of config.py
  declares \<open>MAX_STEPS\<close> (8 unless given) and no \<open>ENABLE_REFLECTION\<close>.
\<close>

record Config =
  MAX_STEPS :: int
  ENABLE_REFLECTION :: "bool option"

definition repository_Config :: "int \<Rightarrow> Config" where
  "repository_Config n = \<lparr>MAX_STEPS = n, ENABLE_REFLECTION = None\<rparr>"

record BrowserAgent =
  config :: Config
  context_manager :: ContextManager
  episodic_memory :: EpisodicMemory
  max_steps :: int
  current_step :: int
  is_task_complete :: bool
  needs_human_input :: bool
  is_active :: bool

text \<open>\<open>BrowserAgent.__init__\<close>, given the text of the system prompt and the memory loaded.\<close>

definition new_agent :: "Config \<Rightarrow> string \<Rightarrow> EpisodicMemory \<Rightarrow> BrowserAgent" where
  "new_agent cfg system_prompt em =
     \<lparr>config = cfg,
      context_manager = \<lparr>action_history = [], max_history = 100, current_task = None,
                         system_context = [system_prompt]\<rparr>,
      episodic_memory = em,
      max_steps = MAX_STEPS cfg,
      current_step = 0,
      is_task_complete = False,
      needs_human_input = False,
      is_active = False\<rparr>"

subsection \<open>Executing one decision\<close>

definition msg_analysis_done :: string where
  "msg_analysis_done =
     [CHR 0xD0, CHR 0x9F, CHR 0xD1, CHR 0x80, CHR 0xD0, CHR 0xBE, CHR 0xD0, CHR 0xB2, CHR 0xD0,
       CHR 0xB5, CHR 0xD0, CHR 0xB4, CHR 0xD0, CHR 0xB5, CHR 0xD0, CHR 0xBD] @ '' '' @
       [CHR 0xD0, CHR 0xB0, CHR 0xD0, CHR 0xBD, CHR 0xD0, CHR 0xB0, CHR 0xD0, CHR 0xBB,
       CHR 0xD0, CHR 0xB8, CHR 0xD0, CHR 0xB7] @ '' '' @ [CHR 0xD1, CHR 0x81, CHR 0xD0,
       CHR 0xB8, CHR 0xD1, CHR 0x82, CHR 0xD1, CHR 0x83, CHR 0xD0, CHR 0xB0, CHR 0xD1,
       CHR 0x86, CHR 0xD0, CHR 0xB8, CHR 0xD0, CHR 0xB8]"

definition msg_marked_complete :: string where
  "msg_marked_complete =
     [CHR 0xD0, CHR 0x97, CHR 0xD0, CHR 0xB0, CHR 0xD0, CHR 0xB4, CHR 0xD0, CHR 0xB0, CHR 0xD1,
       CHR 0x87, CHR 0xD0, CHR 0xB0] @ '' '' @ [CHR 0xD0, CHR 0xBF, CHR 0xD0, CHR 0xBE,
       CHR 0xD0, CHR 0xBC, CHR 0xD0, CHR 0xB5, CHR 0xD1, CHR 0x87, CHR 0xD0, CHR 0xB5,
       CHR 0xD0, CHR 0xBD, CHR 0xD0, CHR 0xB0] @ '' '' @ [CHR 0xD0, CHR 0xBA, CHR 0xD0,
       CHR 0xB0, CHR 0xD0, CHR 0xBA] @ '' '' @ [CHR 0xD0, CHR 0xB7, CHR 0xD0, CHR 0xB0,
       CHR 0xD0, CHR 0xB2, CHR 0xD0, CHR 0xB5, CHR 0xD1, CHR 0x80, CHR 0xD1, CHR 0x88,
       CHR 0xD0, CHR 0xB5, CHR 0xD0, CHR 0xBD, CHR 0xD0, CHR 0xBD, CHR 0xD0, CHR 0xB0,
       CHR 0xD1, CHR 0x8F]"

definition default_question :: string where
  "default_question =
     [CHR 0xD0, CHR 0xA2, CHR 0xD1, CHR 0x80, CHR 0xD0, CHR 0xB5, CHR 0xD0, CHR 0xB1, CHR 0xD1,
       CHR 0x83, CHR 0xD0, CHR 0xB5, CHR 0xD1, CHR 0x82, CHR 0xD1, CHR 0x81, CHR 0xD1,
       CHR 0x8F] @ '' '' @ [CHR 0xD0, CHR 0xBF, CHR 0xD0, CHR 0xBE, CHR 0xD0, CHR 0xBC,
       CHR 0xD0, CHR 0xBE, CHR 0xD1, CHR 0x89, CHR 0xD1, CHR 0x8C] @ '' '' @ [CHR 0xD0,
       CHR 0xBF, CHR 0xD0, CHR 0xBE, CHR 0xD0, CHR 0xBB, CHR 0xD1, CHR 0x8C, CHR 0xD0,
       CHR 0xB7, CHR 0xD0, CHR 0xBE, CHR 0xD0, CHR 0xB2, CHR 0xD0, CHR 0xB0, CHR 0xD1,
       CHR 0x82, CHR 0xD0, CHR 0xB5, CHR 0xD0, CHR 0xBB, CHR 0xD1, CHR 0x8F]"

definition msg_help_requested :: string where
  "msg_help_requested =
     [CHR 0xD0, CHR 0x97, CHR 0xD0, CHR 0xB0, CHR 0xD0, CHR 0xBF, CHR 0xD1, CHR 0x80, CHR 0xD0,
       CHR 0xBE, CHR 0xD1, CHR 0x88, CHR 0xD0, CHR 0xB5, CHR 0xD0, CHR 0xBD, CHR 0xD0,
       CHR 0xB0] @ '' '' @ [CHR 0xD0, CHR 0xBF, CHR 0xD0, CHR 0xBE, CHR 0xD0, CHR 0xBC,
       CHR 0xD0, CHR 0xBE, CHR 0xD1, CHR 0x89, CHR 0xD1, CHR 0x8C] @ '' '' @ [CHR 0xD0,
       CHR 0xBF, CHR 0xD0, CHR 0xBE, CHR 0xD0, CHR 0xBB, CHR 0xD1, CHR 0x8C, CHR 0xD0,
       CHR 0xB7, CHR 0xD0, CHR 0xBE, CHR 0xD0, CHR 0xB2, CHR 0xD0, CHR 0xB0, CHR 0xD1,
       CHR 0x82, CHR 0xD0, CHR 0xB5, CHR 0xD0, CHR 0xBB, CHR 0xD1, CHR 0x8F]"

definition msg_waited :: string where
  "msg_waited =
     [CHR 0xD0, CHR 0x9F, CHR 0xD0, CHR 0xBE, CHR 0xD0, CHR 0xB4, CHR 0xD0, CHR 0xBE, CHR 0xD0,
       CHR 0xB6, CHR 0xD0, CHR 0xB4, CHR 0xD0, CHR 0xB0, CHR 0xD0, CHR 0xBB, CHR 0xD0,
       CHR 0xB8] @ '' ''"

definition msg_seconds :: string where
  "msg_seconds =
     '' '' @ [CHR 0xD1, CHR 0x81, CHR 0xD0, CHR 0xB5, CHR 0xD0, CHR 0xBA, CHR 0xD1, CHR 0x83,
       CHR 0xD0, CHR 0xBD, CHR 0xD0, CHR 0xB4]"

text \<open>\<open>time.sleep(v)\<close>: the exception it raises, if any.\<close>

definition sleep :: "pyval \<Rightarrow> pyexn option" where
  "sleep v =
     (case v of
        PInt n \<Rightarrow> if n < 0 then Some (PyExn ''ValueError'' ''sleep length must be non-negative'')
                  else None
      | PFloat x \<Rightarrow> if x < 0 then Some (PyExn ''ValueError'' ''sleep length must be non-negative'')
                    else None
      | PBool b \<Rightarrow> None
      | _ \<Rightarrow> Some (PyExn ''TypeError''
                  ([CHR 0x27] @ class_name v @ [CHR 0x27] @
                   '' object cannot be interpreted as an integer'')))"

text \<open>
  \<open>BrowserAgent._execute_action\<close>. The four special actions are handled in the agent; any
  other decision becomes an \<open>Action\<close> for \<open>ActionTools.execute_action\<close>. The decoded
  \<open>action\<close> need not be a string: the table lookup then finds nothing for a hashable value
  and raises \<open>TypeError\<close> for an unhashable one.
\<close>

definition agent_execute_action ::
  "externals \<Rightarrow> 'w collaborators \<Rightarrow> pydict \<Rightarrow> 'w sys \<Rightarrow> (pyexn + pydict) \<times> 'w sys" where
  "agent_execute_action ext env action_data s =
     (let a_type = dict_get action_data ''action'' PNone;
          params = dict_get action_data ''parameters'' (PDict [])
      in if a_type = PStr ''analyze'' then
           (Inr [(''success'', PBool True), (''message'', PStr msg_analysis_done)], s)
         else if a_type = PStr ''complete'' then
           (Inr [(''success'', PBool True), (''message'', PStr msg_marked_complete)], s)
         else if a_type = PStr ''ask_human'' then
           (case py_get params ''question'' (PStr default_question) of
              Inl e \<Rightarrow> (Inl e, s)
            | Inr question \<Rightarrow>
                (Inr [(''success'', PBool True), (''message'', PStr msg_help_requested),
                      (''question'', question)], s))
         else if a_type = PStr ''wait'' then
           (case py_get params ''seconds'' (PInt 2) of
              Inl e \<Rightarrow> (Inl e, s)
            | Inr wait_time \<Rightarrow>
                (case sleep wait_time of
                   Some e \<Rightarrow> (Inl e, s)
                 | None \<Rightarrow>
                     (Inr [(''success'', PBool True),
                           (''message'', PStr (msg_waited @ fmt ext wait_time @ msg_seconds))],
                      s)))
         else
           (case a_type of
              PStr t \<Rightarrow>
                execute_action env
                  \<lparr>atype = t, description = dict_get action_data ''description'' (PStr []),
                   parameters = params,
                   confidence = dict_get action_data ''confidence'' (PFloat 1)\<rparr> s
            | _ \<Rightarrow>
                if hashable a_type then (Inr (unknown_action_result (str_of ext a_type)), s)
                else (Inl (PyExn ''TypeError''
                             (''unhashable type: '' @ [CHR 0x27] @ class_name a_type @
                               [CHR 0x27])),
                      s)))"

subsection \<open>Reflection inside a run\<close>

definition lesson_prefix :: string where
  "lesson_prefix =
     [CHR 0xD0, CHR 0xA3, CHR 0xD1, CHR 0x80, CHR 0xD0, CHR 0xBE, CHR 0xD0, CHR 0xBA] @ '' '' @
       [CHR 0xD0, CHR 0xB8, CHR 0xD0, CHR 0xB7] @ '' '' @ [CHR 0xD1, CHR 0x80, CHR 0xD0,
       CHR 0xB5, CHR 0xD1, CHR 0x84, CHR 0xD0, CHR 0xBB, CHR 0xD0, CHR 0xB5, CHR 0xD0,
       CHR 0xBA, CHR 0xD1, CHR 0x81, CHR 0xD0, CHR 0xB8, CHR 0xD0, CHR 0xB8] @ '': ''"

definition lesson_default :: string where
  "lesson_default =
     [CHR 0xD0, CHR 0xA2, CHR 0xD1, CHR 0x80, CHR 0xD0, CHR 0xB5, CHR 0xD0, CHR 0xB1, CHR 0xD1,
       CHR 0x83, CHR 0xD0, CHR 0xB5, CHR 0xD1, CHR 0x82, CHR 0xD1, CHR 0x81, CHR 0xD1,
       CHR 0x8F] @ '' '' @ [CHR 0xD0, CHR 0xB8, CHR 0xD0, CHR 0xB7, CHR 0xD0, CHR 0xBC,
       CHR 0xD0, CHR 0xB5, CHR 0xD0, CHR 0xBD, CHR 0xD0, CHR 0xB8, CHR 0xD1, CHR 0x82,
       CHR 0xD1, CHR 0x8C] @ '' '' @ [CHR 0xD0, CHR 0xBF, CHR 0xD0, CHR 0xBE, CHR 0xD0,
       CHR 0xB4, CHR 0xD1, CHR 0x85, CHR 0xD0, CHR 0xBE, CHR 0xD0, CHR 0xB4]"

text \<open>
  \<open>BrowserAgent._perform_reflection\<close>. The recent actions it passes on are the
  \<open>ActionRecord\<close> objects of the history, not dictionaries.
\<close>

definition missing_config_attribute :: pyexn where
  "missing_config_attribute = no_attribute ''Config'' ''ENABLE_REFLECTION''"

definition perform_reflection ::
  "analysis_functions \<Rightarrow> 'w collaborators \<Rightarrow> string \<Rightarrow> BrowserAgent \<Rightarrow> 'w sys \<Rightarrow>
     pyexn option \<times> BrowserAgent \<times> 'w sys" where
  "perform_reflection af env task_text agent s =
     (case ENABLE_REFLECTION (config agent) of
        None \<Rightarrow> (Some missing_config_attribute, agent, s)
      | Some enabled \<Rightarrow>
          if \<not> enabled then (None, agent, s)
          else
            (case page_state_of env s of
               (current_state, s1) \<Rightarrow>
                 let recent_actions = get_recent_actions (context_manager agent) 10 in
                 (case analyze_failure af env (map (\<lambda>r. PObj ''ActionRecord'') recent_actions)
                         current_state task_text s1 of
                    (Inl e, s2) \<Rightarrow> (Some e, agent, s2)
                  | (Inr reflection, s2) \<Rightarrow>
                      if needs_correction reflection \<and>
                         (case correction_plan reflection of None \<Rightarrow> False | Some p \<Rightarrow> p \<noteq> [])
                      then
                        (None,
                         agent\<lparr>context_manager :=
                           add_system_context (context_manager agent)
                             (lesson_prefix @
                              (case learned_lesson reflection of
                                 None \<Rightarrow> lesson_default
                               | Some l \<Rightarrow> if l = [] then lesson_default else l))\<rparr>,
                         s2)
                      else (None, agent, s2))))"

subsection \<open>The task loop\<close>

definition msg_task_done :: string where
  "msg_task_done =
     [CHR 0xD0, CHR 0x97, CHR 0xD0, CHR 0xB0, CHR 0xD0, CHR 0xB4, CHR 0xD0, CHR 0xB0, CHR 0xD1,
       CHR 0x87, CHR 0xD0, CHR 0xB0] @ '' '' @ [CHR 0xD1, CHR 0x83, CHR 0xD1, CHR 0x81,
       CHR 0xD0, CHR 0xBF, CHR 0xD0, CHR 0xB5, CHR 0xD1, CHR 0x88, CHR 0xD0, CHR 0xBD,
       CHR 0xD0, CHR 0xBE] @ '' '' @ [CHR 0xD0, CHR 0xB2, CHR 0xD1, CHR 0x8B, CHR 0xD0,
       CHR 0xBF, CHR 0xD0, CHR 0xBE, CHR 0xD0, CHR 0xBB, CHR 0xD0, CHR 0xBD, CHR 0xD0,
       CHR 0xB5, CHR 0xD0, CHR 0xBD, CHR 0xD0, CHR 0xB0]"

definition msg_need_input :: string where
  "msg_need_input =
     [CHR 0xD0, CHR 0xA2, CHR 0xD1, CHR 0x80, CHR 0xD0, CHR 0xB5, CHR 0xD0, CHR 0xB1, CHR 0xD1,
       CHR 0x83, CHR 0xD0, CHR 0xB5, CHR 0xD1, CHR 0x82, CHR 0xD1, CHR 0x81, CHR 0xD1,
       CHR 0x8F] @ '' '' @ [CHR 0xD0, CHR 0xB2, CHR 0xD0, CHR 0xB2, CHR 0xD0, CHR 0xBE,
       CHR 0xD0, CHR 0xB4] @ '' '' @ [CHR 0xD0, CHR 0xBF, CHR 0xD0, CHR 0xBE, CHR 0xD0,
       CHR 0xBB, CHR 0xD1, CHR 0x8C, CHR 0xD0, CHR 0xB7, CHR 0xD0, CHR 0xBE, CHR 0xD0,
       CHR 0xB2, CHR 0xD0, CHR 0xB0, CHR 0xD1, CHR 0x82, CHR 0xD0, CHR 0xB5, CHR 0xD0,
       CHR 0xBB, CHR 0xD1, CHR 0x8F]"

definition msg_step_limit :: string where
  "msg_step_limit =
     [CHR 0xD0, CHR 0x94, CHR 0xD0, CHR 0xBE, CHR 0xD1, CHR 0x81, CHR 0xD1, CHR 0x82, CHR 0xD0,
       CHR 0xB8, CHR 0xD0, CHR 0xB3, CHR 0xD0, CHR 0xBD, CHR 0xD1, CHR 0x83, CHR 0xD1,
       CHR 0x82] @ '' '' @ [CHR 0xD0, CHR 0xBB, CHR 0xD0, CHR 0xB8, CHR 0xD0, CHR 0xBC,
       CHR 0xD0, CHR 0xB8, CHR 0xD1, CHR 0x82] @ '' '' @ [CHR 0xD1, CHR 0x88, CHR 0xD0,
       CHR 0xB0, CHR 0xD0, CHR 0xB3, CHR 0xD0, CHR 0xBE, CHR 0xD0, CHR 0xB2] @ '' (''"

definition msg_task_error :: string where
  "msg_task_error =
     [CHR 0xD0, CHR 0x9E, CHR 0xD1, CHR 0x88, CHR 0xD0, CHR 0xB8, CHR 0xD0, CHR 0xB1, CHR 0xD0,
       CHR 0xBA, CHR 0xD0, CHR 0xB0] @ '' '' @ [CHR 0xD0, CHR 0xBF, CHR 0xD1, CHR 0x80,
       CHR 0xD0, CHR 0xB8] @ '' '' @ [CHR 0xD0, CHR 0xB2, CHR 0xD1, CHR 0x8B, CHR 0xD0,
       CHR 0xBF, CHR 0xD0, CHR 0xBE, CHR 0xD0, CHR 0xBB, CHR 0xD0, CHR 0xBD, CHR 0xD0,
       CHR 0xB5, CHR 0xD0, CHR 0xBD, CHR 0xD0, CHR 0xB8, CHR 0xD0, CHR 0xB8] @ '' '' @
       [CHR 0xD0, CHR 0xB7, CHR 0xD0, CHR 0xB0, CHR 0xD0, CHR 0xB4, CHR 0xD0, CHR 0xB0,
       CHR 0xD1, CHR 0x87, CHR 0xD0, CHR 0xB8]"

definition msg_unknown_error :: string where
  "msg_unknown_error =
     [CHR 0xD0, CHR 0x9D, CHR 0xD0, CHR 0xB5, CHR 0xD0, CHR 0xB8, CHR 0xD0, CHR 0xB7, CHR 0xD0,
       CHR 0xB2, CHR 0xD0, CHR 0xB5, CHR 0xD1, CHR 0x81, CHR 0xD1, CHR 0x82, CHR 0xD0,
       CHR 0xBD, CHR 0xD0, CHR 0xB0, CHR 0xD1, CHR 0x8F] @ '' '' @ [CHR 0xD0, CHR 0xBE,
       CHR 0xD1, CHR 0x88, CHR 0xD0, CHR 0xB8, CHR 0xD0, CHR 0xB1, CHR 0xD0, CHR 0xBA,
       CHR 0xD0, CHR 0xB0]"

text \<open>The page state as the dictionary that the browser returns.\<close>

definition page_state_dict :: "page_state \<Rightarrow> pyval" where
  "page_state_dict st =
     PDict [(''url'', PStr (ps_url st)),
            (''title'', PStr (ps_title st)),
            (''page_type'', PStr (ps_page_type st)),
            (''elements'', PList (map PStr (ps_elements st))),
            (''visible_text_preview'', PStr (ps_visible_text_preview st)),
            (''element_count'', PInt (ps_element_count st))]"

text \<open>The five result dictionaries of \<open>_execute_task_loop\<close>.\<close>

definition completed_result :: "int \<Rightarrow> page_state \<Rightarrow> pydict" where
  "completed_result steps st =
     [(''success'', PBool True), (''message'', PStr msg_task_done), (''steps'', PInt steps),
      (''final_state'', page_state_dict st)]"

definition need_input_result :: "pyval \<Rightarrow> int \<Rightarrow> pydict" where
  "need_input_result question step =
     [(''success'', PBool False), (''message'', PStr msg_need_input), (''question'', question),
      (''current_step'', PInt step)]"

definition step_limit_result :: "externals \<Rightarrow> int \<Rightarrow> int \<Rightarrow> page_state \<Rightarrow> pydict" where
  "step_limit_result ext limit steps st =
     [(''success'', PBool False),
      (''message'', PStr (msg_step_limit @ str_of ext (PInt limit) @ '')'')),
      (''steps'', PInt steps),
      (''current_state'', page_state_dict st)]"

definition failed_result :: "pyexn \<Rightarrow> int \<Rightarrow> pydict" where
  "failed_result e steps =
     [(''success'', PBool False), (''error'', PStr (exn_msg e)), (''message'', PStr msg_task_error),
      (''steps'', PInt steps)]"

definition unknown_result :: pydict where
  "unknown_result = [(''success'', PBool False), (''message'', PStr msg_unknown_error)]"

text \<open>How one pass through the body of the \<open>while\<close> loop ends.\<close>

datatype flow = Continue | Break | Raise pyexn

text \<open>
  The part of the loop body after the action has been recorded: the checks for
  \<open>complete\<close> and \<open>ask_human\<close>, and the reflection every fifth step. In the condition
  \<open>self.config.ENABLE_REFLECTION and self.current_step % 5 == 0\<close> the attribute is read
  first, on every pass that gets there.
\<close>

definition after_action ::
  "analysis_functions \<Rightarrow> 'w collaborators \<Rightarrow> string \<Rightarrow> pydict \<Rightarrow> BrowserAgent \<Rightarrow> 'w sys \<Rightarrow>
     flow \<times> pydict option \<times> BrowserAgent \<times> 'w sys" where
  "after_action af env task_text action_decision agent s =
     (if dict_get action_decision ''action'' PNone = PStr ''complete'' then
        (let agent1 = agent\<lparr>is_task_complete := True\<rparr> in
         case page_state_of env s of
           (st, s1) \<Rightarrow> (Break, Some (completed_result (current_step agent1) st), agent1, s1))
      else if dict_get action_decision ''action'' PNone = PStr ''ask_human'' then
        (let agent1 = agent\<lparr>needs_human_input := True\<rparr> in
         case py_get (dict_get action_decision ''parameters'' (PDict [])) ''question'' PNone of
           Inl e \<Rightarrow> (Raise e, None, agent1, s)
         | Inr question \<Rightarrow>
             (Break, Some (need_input_result question (current_step agent1)), agent1, s))
      else
        (case ENABLE_REFLECTION (config agent) of
           None \<Rightarrow> (Raise missing_config_attribute, None, agent, s)
         | Some enabled \<Rightarrow>
             if enabled \<and> current_step agent mod 5 = 0 then
               (case perform_reflection af env task_text agent s of
                  (Some e, agent1, s1) \<Rightarrow> (Raise e, None, agent1, s1)
                | (None, agent1, s1) \<Rightarrow> (Continue, None, agent1, s1))
             else (Continue, None, agent, s)))"

text \<open>
  The body of the \<open>while\<close> loop: count the step, read the page, ask the memory for
  advice, decide, execute, record. The context text and the advice only enter the prompt.
\<close>

definition loop_body ::
  "externals \<Rightarrow> analysis_functions \<Rightarrow> 'w collaborators \<Rightarrow> string \<Rightarrow> BrowserAgent \<Rightarrow> 'w sys \<Rightarrow>
     flow \<times> pydict option \<times> BrowserAgent \<times> 'w sys" where
  "loop_body ext af env task_text agent0 s =
     (let agent = agent0\<lparr>current_step := current_step agent0 + 1\<rparr> in
      case page_state_of env s of
        (current_state, s1) \<Rightarrow>
          (case advice_error (episodic_memory agent) current_state of
             Some e \<Rightarrow> (Raise e, None, agent, s1)
           | None \<Rightarrow>
          (case decide_next_action ext env s1 of
             (None, s2) \<Rightarrow> (Break, None, agent, s2)
           | (Some action_decision, s2) \<Rightarrow>
               if action_decision = [] then (Break, None, agent, s2)
               else
                 (case agent_execute_action ext env action_decision s2 of
                    (Inl e, s3) \<Rightarrow> (Raise e, None, agent, s3)
                  | (Inr action_result, s3) \<Rightarrow>
                      (case now env s3 of
                         (ts, s4) \<Rightarrow>
                           after_action af env task_text action_decision
                             (agent\<lparr>context_manager :=
                                add_action ext ts
                                  (dict_get action_decision ''action'' (PStr ''unknown''))
                                  (dict_get action_decision ''description'' (PStr []))
                                  action_result current_state (context_manager agent)\<rparr>) s4)))))"

text \<open>
  A pass through the body counts one step and leaves the step limit alone; this is what
  makes the loop end.
\<close>

lemma perform_reflection_frame:
  "perform_reflection af env t agent s = (r, agent', s') \<Longrightarrow>
     current_step agent' = current_step agent \<and> max_steps agent' = max_steps agent"
  by (auto simp: perform_reflection_def Let_def
      split: option.splits if_splits prod.splits sum.splits)

lemma after_action_frame:
  "after_action af env t ad agent s = (fl, fr, agent', s') \<Longrightarrow>
     current_step agent' = current_step agent \<and> max_steps agent' = max_steps agent"
  by (auto simp: after_action_def Let_def dest: perform_reflection_frame
      split: option.splits if_splits prod.splits sum.splits)

lemma loop_body_frame:
  "loop_body ext af env t agent s = (fl, fr, agent', s') \<Longrightarrow>
     current_step agent' = current_step agent + 1 \<and> max_steps agent' = max_steps agent"
  by (auto simp: loop_body_def Let_def dest!: after_action_frame
      split: option.splits if_splits prod.splits sum.splits)

text \<open>
  The \<open>while\<close> loop of \<open>_execute_task_loop\<close>. It returns the exception that left it, if
  any, and the value of \<open>final_result\<close> as the body set it.
\<close>

function task_loop ::
  "externals \<Rightarrow> analysis_functions \<Rightarrow> 'w collaborators \<Rightarrow> string \<Rightarrow> BrowserAgent \<Rightarrow> 'w sys \<Rightarrow>
     pyexn option \<times> pydict option \<times> BrowserAgent \<times> 'w sys" where
  "task_loop ext af env task_text agent s =
     (if \<not> is_task_complete agent \<and> current_step agent < max_steps agent \<and>
         \<not> needs_human_input agent
      then
        (case loop_body ext af env task_text agent s of
           (Continue, fr, agent', s') \<Rightarrow> task_loop ext af env task_text agent' s'
         | (Break, fr, agent', s') \<Rightarrow> (None, fr, agent', s')
         | (Raise e, fr, agent', s') \<Rightarrow> (Some e, fr, agent', s'))
      else (None, None, agent, s))"
  by pat_completeness auto
termination
  by (relation "measure (\<lambda>(ext, af, env, t, agent, s). nat (max_steps agent - current_step agent))")
     (auto dest!: loop_body_frame [OF sym])

declare task_loop.simps [simp del]

text \<open>
  The \<open>try\<close> statement around the loop: the step-limit result when the loop was left with
  neither flag set, the failure result in the handler.
\<close>

definition run_loop ::
  "externals \<Rightarrow> analysis_functions \<Rightarrow> 'w collaborators \<Rightarrow> string \<Rightarrow> BrowserAgent \<Rightarrow> 'w sys \<Rightarrow>
     pydict option \<times> BrowserAgent \<times> 'w sys" where
  "run_loop ext af env task_text agent s =
     (case task_loop ext af env task_text agent s of
        (Some e, fr, agent1, s1) \<Rightarrow> (Some (failed_result e (current_step agent1)), agent1, s1)
      | (None, fr, agent1, s1) \<Rightarrow>
          if \<not> is_task_complete agent1 \<and> \<not> needs_human_input agent1 then
            (case page_state_of env s1 of
               (st, s2) \<Rightarrow>
                 (Some (step_limit_result ext (max_steps agent1) (current_step agent1) st),
                  agent1, s2))
          else (fr, agent1, s1))"

text \<open>The list of dictionaries that the \<open>finally\<close> block makes of the action history.\<close>

definition history_actions :: "ActionRecord list \<Rightarrow> pydict list" where
  "history_actions records =
     map (\<lambda>r. [(''action_type'', action_type r),
                (''action_description'', action_description r),
                (''result'', PDict (result r))]) records"

text \<open>
  \<open>final_result.get("success", False) if final_result else False\<close>; every result
  dictionary of the loop holds a \<open>bool\<close> there.
\<close>

definition success_of :: "pydict option \<Rightarrow> bool" where
  "success_of final_result =
     (case final_result of
        None \<Rightarrow> False
      | Some d \<Rightarrow> d \<noteq> [] \<and> dict_get d ''success'' (PBool False) = PBool True)"

text \<open>
  \<open>BrowserAgent._execute_task_loop\<close>. The \<open>finally\<close> block stores an episode when the
  action history is not empty; an exception of \<open>add_episode\<close> leaves the function
  (\<open>Inl\<close>).
\<close>

definition execute_task_loop ::
  "externals \<Rightarrow> analysis_functions \<Rightarrow> 'w collaborators \<Rightarrow> string \<Rightarrow> BrowserAgent \<Rightarrow> 'w sys \<Rightarrow>
     (pyexn + pydict) \<times> BrowserAgent \<times> 'w sys" where
  "execute_task_loop ext af env task_text agent s =
     (let started = agent\<lparr>is_active := True, is_task_complete := False, current_step := 0\<rparr> in
      case run_loop ext af env task_text started s of
        (final_result, agent1, s1) \<Rightarrow>
          let stopped = agent1\<lparr>is_active := False\<rparr>;
              returned = (case final_result of
                            None \<Rightarrow> unknown_result
                          | Some d \<Rightarrow> if d = [] then unknown_result else d)
          in if action_history (context_manager stopped) \<noteq> [] then
               (case page_state_of env s1 of
                  (current_state, s2) \<Rightarrow>
                    (case add_episode ext env (ps_url current_state) (ps_title current_state)
                            (ps_page_type current_state)
                            (history_actions (action_history (context_manager stopped)))
                            (success_of final_result) (episodic_memory stopped) s2 of
                       (Inl e, s3) \<Rightarrow> (Inl e, stopped, s3)
                     | (Inr (episode, em), s3) \<Rightarrow>
                         (Inr returned, stopped\<lparr>episodic_memory := em\<rparr>, s3)))
             else (Inr returned, stopped, s1))"

section \<open>Finding an element by its description (browser/element\_finder.py)\<close>

text \<open>
  The page is what the Selenium driver answers. An element answers \<open>is_displayed()\<close>,
  \<open>is_enabled()\<close> and \<open>.text\<close>, or raises (\<open>None\<close>: a stale element, say). The driver
  returns the elements of a CSS selector or of an XPath expression in document order, or
  raises (\<open>None\<close>); \<open>described_xpath\<close> is the \<open>xpath\<close> field of \<open>_describe_element(elem)\<close>,
  which the browser computes and which raises nothing.
\<close>

record WebElement =
  element_id :: nat
  is_displayed :: "bool option"
  is_enabled :: "bool option"
  element_text :: "string option"

record driver =
  find_elements_css :: "string \<Rightarrow> WebElement list option"
  find_elements_xpath :: "string \<Rightarrow> WebElement list option"
  find_element_xpath :: "string \<Rightarrow> WebElement option"
  described_xpath :: "WebElement \<Rightarrow> string"

text \<open>
  \<open>for elem in elements: if elem.is_displayed() and elem.is_enabled(): return elem\<close> under a
  \<open>try\<close> whose handler gives up on the list.
\<close>

fun first_usable :: "WebElement list \<Rightarrow> WebElement option" where
  "first_usable [] = None"
| "first_usable (elem # rest) =
     (case is_displayed elem of
        None \<Rightarrow> None
      | Some False \<Rightarrow> first_usable rest
      | Some True \<Rightarrow>
          (case is_enabled elem of
             None \<Rightarrow> None
           | Some True \<Rightarrow> Some elem
           | Some False \<Rightarrow> first_usable rest))"

text \<open>The length of a \<open>str\<close> in code points: the bytes that do not continue a character.\<close>

definition py_len :: "string \<Rightarrow> nat" where
  "py_len s =
     length (filter (\<lambda>c. \<not> ((0x80 :: nat) \<le> of_char c \<and> of_char c < (0xC0 :: nat))) s)"

definition word_search_ru :: string where
  "word_search_ru =
     [CHR 0xD0, CHR 0xBF, CHR 0xD0, CHR 0xBE, CHR 0xD0, CHR 0xB8, CHR 0xD1, CHR 0x81, CHR 0xD0,
       CHR 0xBA]"

definition word_find_ru :: string where
  "word_find_ru =
     [CHR 0xD0, CHR 0xBD, CHR 0xD0, CHR 0xB0, CHR 0xD0, CHR 0xB9, CHR 0xD1, CHR 0x82, CHR 0xD0,
       CHR 0xB8]"

definition word_seek_ru :: string where
  "word_seek_ru =
     [CHR 0xD0, CHR 0xB8, CHR 0xD1, CHR 0x81, CHR 0xD0, CHR 0xBA, CHR 0xD0, CHR 0xB0, CHR 0xD1,
       CHR 0x82, CHR 0xD1, CHR 0x8C]"

definition word_button_ru :: string where
  "word_button_ru =
     [CHR 0xD0, CHR 0xBA, CHR 0xD0, CHR 0xBD, CHR 0xD0, CHR 0xBE, CHR 0xD0, CHR 0xBF, CHR 0xD0,
       CHR 0xBA, CHR 0xD0, CHR 0xB0]"


definition search_words :: "string list" where
  "search_words = [word_search_ru, ''search'', word_find_ru, word_seek_ru]"

text \<open>The scan of the button tier: a usable button whose text has a search word, or is short.\<close>

fun first_button :: "externals \<Rightarrow> WebElement list \<Rightarrow> WebElement option" where
  "first_button ext [] = None"
| "first_button ext (elem # rest) =
     (case is_displayed elem of
        None \<Rightarrow> None
      | Some False \<Rightarrow> first_button ext rest
      | Some True \<Rightarrow>
          (case is_enabled elem of
             None \<Rightarrow> None
           | Some False \<Rightarrow> first_button ext rest
           | Some True \<Rightarrow>
               (case element_text elem of
                  None \<Rightarrow> None
                | Some txt \<Rightarrow>
                    let elem_text = lower ext txt in
                    if list_ex (\<lambda>word. sublist word elem_text) search_words then Some elem
                    else if elem_text \<noteq> [] \<and> py_len elem_text < 20 then Some elem
                    else first_button ext rest)))"

definition search_selectors :: "string list" where
  "search_selectors =
     [''textarea[name='' @ [CHR 0x27] @ ''q'' @ [CHR 0x27] @ '']'',
      ''input[name='' @ [CHR 0x27] @ ''q'' @ [CHR 0x27] @ '']'',
      ''[aria-label='' @ [CHR 0x27, CHR 0xD0, CHR 0x9F, CHR 0xD0, CHR 0xBE, CHR 0xD0, CHR 0xB8,
        CHR 0xD1, CHR 0x81, CHR 0xD0, CHR 0xBA, CHR 0x27] @ '']'',
      ''[title='' @ [CHR 0x27, CHR 0xD0, CHR 0x9F, CHR 0xD0, CHR 0xBE, CHR 0xD0, CHR 0xB8,
        CHR 0xD1, CHR 0x81, CHR 0xD0, CHR 0xBA, CHR 0x27] @ '']'',
      ''input[type='' @ [CHR 0x27] @ ''text'' @ [CHR 0x27] @ ''][title='' @ [CHR 0x27,
        CHR 0xD0, CHR 0x9F, CHR 0xD0, CHR 0xBE, CHR 0xD0, CHR 0xB8, CHR 0xD1, CHR 0x81,
        CHR 0xD0, CHR 0xBA, CHR 0x27] @ '']'',
      ''[name='' @ [CHR 0x27] @ ''search'' @ [CHR 0x27] @ '']'',
      ''[role='' @ [CHR 0x27] @ ''searchbox'' @ [CHR 0x27] @ '']'',
      ''input[type='' @ [CHR 0x27] @ ''search'' @ [CHR 0x27] @ '']'']"

definition button_selectors :: "string list" where
  "button_selectors =
     [''button'', ''input[type='' @ [CHR 0x27] @ ''submit'' @ [CHR 0x27] @ '']'',
       ''input[type='' @ [CHR 0x27] @ ''button'' @ [CHR 0x27] @ '']'', ''[role='' @
       [CHR 0x27] @ ''button'' @ [CHR 0x27] @ '']'']"

fun first_some :: "'a option list \<Rightarrow> 'a option" where
  "first_some [] = None"
| "first_some (None # rest) = first_some rest"
| "first_some (Some x # rest) = Some x"












text \<open>The four description-driven tiers and the fallback of \<open>find_element_by_description\<close>.\<close>

definition intent_tier :: "externals \<Rightarrow> driver \<Rightarrow> string \<Rightarrow> WebElement option" where
  "intent_tier ext drv desc =
     (if sublist word_search_ru (lower ext desc) \<or> sublist ''search'' (lower ext desc)
      then first_some (map (\<lambda>selector.
             case find_elements_css drv selector of
               None \<Rightarrow> None
             | Some elements \<Rightarrow> first_usable elements) search_selectors)
      else if sublist word_button_ru (lower ext desc) \<or>
              sublist ''button'' (lower ext desc)
      then first_some (map (\<lambda>selector.
             case find_elements_css drv selector of
               None \<Rightarrow> None
             | Some elements \<Rightarrow> first_button ext elements) button_selectors)
      else None)"





section \<open>Concrete collaborators for the witnesses\<close>

text \<open>
  Two replies of the language model, and externals that agree with the Python library on
  the texts used below: \<open>json.loads\<close> decodes the replies, the keyword parser finds no action in
  a text without any of its keywords, \<open>str\<close> of a non-negative integer is its decimal
  numeral, and \<open>lower\<close> maps a text without capital letters to itself.
\<close>

definition reply_scroll :: string where
  "reply_scroll =
     ''{'' @ [CHR 0x22] @ ''action'' @ [CHR 0x22] @ '': '' @ [CHR 0x22] @ ''scroll'' @ [CHR 0x22] @
     '', '' @ [CHR 0x22] @ ''description'' @ [CHR 0x22] @ '': '' @ [CHR 0x22] @ ''down'' @
     [CHR 0x22] @ ''}''"

definition decoded_scroll :: pydict where
  "decoded_scroll = [(''action'', PStr ''scroll''), (''description'', PStr ''down'')]"

definition reply_complete :: string where
  "reply_complete =
     ''{'' @ [CHR 0x22] @ ''action'' @ [CHR 0x22] @ '': '' @ [CHR 0x22] @ ''complete'' @ [CHR 0x22] @
     '', '' @ [CHR 0x22] @ ''description'' @ [CHR 0x22] @ '': '' @ [CHR 0x22] @ ''done'' @
     [CHR 0x22] @ ''}''"

definition decoded_complete :: pydict where
  "decoded_complete = [(''action'', PStr ''complete''), (''description'', PStr ''done'')]"

function decimal :: "nat \<Rightarrow> string" where
  "decimal n =
     (if n < 10 then [char_of (48 + n)] else decimal (n div 10) @ [char_of (48 + n mod 10)])"
  by pat_completeness auto
termination
  by (relation "measure id") auto

declare decimal.simps [simp del]

definition test_ext :: externals where
  "test_ext =
     \<lparr>json_loads = (\<lambda>s. if s = reply_scroll then Some decoded_scroll
                        else if s = reply_complete then Some decoded_complete else None),
      str_of = (\<lambda>v. case v of PInt i \<Rightarrow> decimal (nat i) | _ \<Rightarrow> ''None''),
      lower = (\<lambda>s. s),
      md5_hexdigest = (\<lambda>s. ''d41d8cd98f00b204e9800998ecf8427e''),
      set_order = (\<lambda>xs. xs),
      parse_action_from_llm = (\<lambda>s. None)\<rparr>"

text \<open>
  Collaborators for the witnesses. The world is the list of replies that the language model
  still has to give; asked with none left, the call raises. The page is a search engine's
  home page; the browser has no callable \<open>wait\<close>, its \<open>scroll\<close> needs an argument, and its
  other methods find no element.
\<close>

definition test_page :: page_state where
  "test_page =
     \<lparr>ps_url = ''https://www.google.com/'', ps_title = ''Google'',
      ps_page_type = ''search_engine'', ps_elements = [],
      ps_visible_text_preview = [], ps_element_count = 0\<rparr>"

definition test_env :: "string list collaborators" where
  "test_env =
     \<lparr>llm_generate = (\<lambda>w. case w of
                           [] \<Rightarrow> (Inl (PyExn ''ConnectionError'' ''connection refused''), [])
                         | r # rs \<Rightarrow> (Inr r, rs)),
      get_page_state = (\<lambda>w. (test_page, w)),
      browser_method = (\<lambda>name args w.
                          if name = ''wait''
                          then (Inl (PyExn ''TypeError''
                                       ([CHR 0x27] @ ''WebDriverWait'' @ [CHR 0x27] @
                                        '' object is not callable'')), w)
                          else if name = ''scroll'' \<and> args = None
                          then (Inl (PyExn ''TypeError''
                                       (''BrowserController.scroll() missing 1 required '' @
                                        ''positional argument: '' @ [CHR 0x27] @ ''direction'' @
                                        [CHR 0x27])), w)
                          else (Inr [(''success'', PBool False),
                                     (''error'', PStr ''Element not found''),
                                     (''message'', PStr ''not found'')], w)),
      now_isoformat = (\<lambda>w. (''2024-01-01T00:00:00'', w))\<rparr>"

text \<open>
  Post-processing of an analysis text, as the reflection engine does it for a text of one
  paragraph without any of its keywords and labels, after at most three failures: no
  correction needed, the paragraph as the plan, no lesson, confidence 1.
\<close>

definition test_af :: analysis_functions where
  "test_af =
     \<lparr>detect_correction_needed = (\<lambda>analysis. False),
      extract_correction_plan = (\<lambda>analysis. Some analysis),
      extract_lesson = (\<lambda>analysis. None),
      calculate_confidence = (\<lambda>analysis n. 1)\<rparr>"

section \<open>Properties of the decision engine\<close>

lemma has_key_dict_set: "has_key (dict_set d k v) k' = (k' = k \<or> has_key d k')"
  by (simp add: has_key_def dict_set_def update_conv')

lemma dict_get_dict_set:
  "dict_get (dict_set d k v) k' dflt = (if k' = k then v else dict_get d k' dflt)"
  by (simp add: dict_get_def dict_set_def update_conv')

lemma map_of_dict_set: "map_of (dict_set d k v) k' = (if k' = k then Some v else map_of d k')"
  by (simp add: dict_set_def update_conv')

text \<open>What the structural branch returns for a decoded dictionary that has both keys.\<close>

definition structural_result :: "pydict \<Rightarrow> pydict" where
  "structural_result action_data =
     (let with_parameters =
            (if has_key action_data ''parameters'' then action_data
             else dict_set action_data ''parameters'' (PDict []))
      in if has_key with_parameters ''confidence'' then with_parameters
         else dict_set with_parameters ''confidence'' (PFloat 0.8))"

lemma parse_structural:
  assumes "search_braces response = Some json_match"
    and "json_loads ext json_match = Some action_data"
  shows "parse_llm_response ext response =
           (if has_key action_data ''action'' \<and> has_key action_data ''description''
            then Some (structural_result action_data) else None)"
  using assms by (simp add: parse_llm_response_def structural_result_def Let_def)

text \<open>
  Claim C8. When a brace-delimited substring is found in the response and \<open>json.loads\<close>
  decodes it, the parse returns a result exactly if the decoded dictionary has both the key
  \<open>action\<close> and the key \<open>description\<close>. In the result, \<open>parameters\<close> is the empty dictionary
  when the decoded dictionary has no such key and \<open>confidence\<close> is 0.8 when it has no such
  key; a value that is present is kept, and so is every other entry.
\<close>

theorem parse_llm_response_structural:
  assumes "search_braces response = Some json_match"
    and "json_loads ext json_match = Some action_data"
  shows "(parse_llm_response ext response \<noteq> None \<longleftrightarrow>
            has_key action_data ''action'' \<and> has_key action_data ''description'') \<and>
         (\<forall>parsed. parse_llm_response ext response = Some parsed \<longrightarrow>
            dict_get parsed ''parameters'' PNone =
              (if has_key action_data ''parameters''
               then dict_get action_data ''parameters'' PNone else PDict []) \<and>
            dict_get parsed ''confidence'' PNone =
              (if has_key action_data ''confidence''
               then dict_get action_data ''confidence'' PNone else PFloat 0.8) \<and>
            (\<forall>k. k \<noteq> ''parameters'' \<and> k \<noteq> ''confidence'' \<longrightarrow>
               map_of parsed k = map_of action_data k))"
proof -
  note p = parse_structural [OF assms]
  have keys: "parse_llm_response ext response \<noteq> None \<longleftrightarrow>
      has_key action_data ''action'' \<and> has_key action_data ''description''"
    by (simp add: p)
  have fields: "dict_get (structural_result action_data) ''parameters'' PNone =
        (if has_key action_data ''parameters'' then dict_get action_data ''parameters'' PNone
         else PDict []) \<and>
      dict_get (structural_result action_data) ''confidence'' PNone =
        (if has_key action_data ''confidence'' then dict_get action_data ''confidence'' PNone
         else PFloat 0.8) \<and>
      (\<forall>k. k \<noteq> ''parameters'' \<and> k \<noteq> ''confidence'' \<longrightarrow>
         map_of (structural_result action_data) k = map_of action_data k)"
    by (simp add: structural_result_def Let_def dict_get_dict_set has_key_dict_set
          map_of_dict_set)
  show ?thesis
    using keys fields by (auto simp: p split: if_splits)
qed

lemma search_braces_reply_scroll: "search_braces reply_scroll = Some reply_scroll"
  by (simp add: search_braces_def reply_scroll_def)

lemma loads_reply_scroll: "json_loads test_ext reply_scroll = Some decoded_scroll"
  by (simp add: test_ext_def)

theorem parse_llm_response_structural_witness:
  "search_braces reply_scroll = Some reply_scroll \<and>
   json_loads test_ext reply_scroll = Some decoded_scroll \<and>
   parse_llm_response test_ext reply_scroll =
     Some [(''action'', PStr ''scroll''), (''description'', PStr ''down''),
           (''parameters'', PDict []), (''confidence'', PFloat 0.8)]"
proof -
  have k: "has_key decoded_scroll ''action'' \<and> has_key decoded_scroll ''description''"
    by (simp add: decoded_scroll_def has_key_def)
  from parse_llm_response_structural [OF search_braces_reply_scroll loads_reply_scroll] k
  obtain parsed where "parse_llm_response test_ext reply_scroll = Some parsed"
    by auto
  moreover have "parse_llm_response test_ext reply_scroll =
     Some [(''action'', PStr ''scroll''), (''description'', PStr ''down''),
           (''parameters'', PDict []), (''confidence'', PFloat 0.8)]"
    by (simp add: parse_structural [OF search_braces_reply_scroll loads_reply_scroll] k
          structural_result_def has_key_def dict_set_def decoded_scroll_def)
  ultimately show ?thesis
    using search_braces_reply_scroll loads_reply_scroll by simp
qed














section \<open>Properties of the reflection engine\<close>







section \<open>Properties of the episodic memory\<close>

subsection \<open>Retrieval\<close>

text \<open>
  When a query matches an episode, and the episodes with a positive score paired with
  their scores, in stored order.
\<close>

definition url_matches :: "string option \<Rightarrow> Episode \<Rightarrow> bool" where
  "url_matches q_url ep = (\<exists>u. q_url = Some u \<and> u \<noteq> [] \<and> sublist u (url ep))"

definition page_type_matches :: "string option \<Rightarrow> Episode \<Rightarrow> bool" where
  "page_type_matches q_page_type ep = (\<exists>p. q_page_type = Some p \<and> p \<noteq> [] \<and> page_type ep = p)"

text \<open>
  The score and the result as the claim words them: 2 whenever the query URL is a substring
  of the episode's URL, 1 whenever the query page type equals the episode's.
\<close>

definition claimed_score :: "string option \<Rightarrow> string option \<Rightarrow> Episode \<Rightarrow> int" where
  "claimed_score q_url q_page_type ep =
     (if (case q_url of None \<Rightarrow> False | Some u \<Rightarrow> sublist u (url ep)) then 2 else 0) +
     (if q_page_type = Some (page_type ep) then 1 else 0) +
     (if success ep then 1 else 0)"

definition claimed_find_similar ::
  "EpisodicMemory \<Rightarrow> string option \<Rightarrow> string option \<Rightarrow> int \<Rightarrow> Episode list" where
  "claimed_find_similar em q_url q_page_type max_results =
     map snd (slice_to max_results (sort_reverse fst
       (filter (\<lambda>p. 0 < fst p)
          (map (\<lambda>ep. (claimed_score q_url q_page_type ep, ep)) (episodes em)))))"

definition scored :: "EpisodicMemory \<Rightarrow> string option \<Rightarrow> string option \<Rightarrow> (int \<times> Episode) list" where
  "scored em q_url q_page_type =
     filter (\<lambda>p. 0 < fst p) (map (\<lambda>ep. (score q_url q_page_type ep, ep)) (episodes em))"

lemma score_formula:
  "score q_url q_page_type ep =
     (if url_matches q_url ep then 2 else 0) + (if page_type_matches q_page_type ep then 1 else 0) +
     (if success ep then 1 else 0)"
  by (auto simp: score_def url_matches_def page_type_matches_def split: option.splits)

lemma sort_reverse_descending: "sorted_wrt (\<lambda>a b. key b \<le> key a) (sort_reverse key xs)"
proof -
  have "sorted (map key (sort_key key (rev xs)))"
    by simp
  then have "sorted_wrt (\<lambda>a b. key a \<le> key b) (sort_key key (rev xs))"
    by (simp add: sorted_map)
  then show ?thesis
    by (simp add: sort_reverse_def sorted_wrt_rev)
qed

lemma sort_reverse_stable:
  "filter (\<lambda>x. key x = k) (sort_reverse key xs) = filter (\<lambda>x. key x = k) xs"
proof -
  have "filter (\<lambda>x. key x = k) (sort_reverse key xs) =
      rev (filter (\<lambda>x. key x = k) (sort_key key (rev xs)))"
    by (simp add: sort_reverse_def rev_filter)
  also have "\<dots> = rev (filter (\<lambda>x. key x = k) (rev xs))"
    by (simp add: sort_key_stable)
  also have "\<dots> = filter (\<lambda>x. key x = k) xs"
    by (simp add: rev_filter)
  finally show ?thesis .
qed

lemma sort_reverse_mset: "mset (sort_reverse key xs) = mset xs"
  by (simp add: sort_reverse_def)

lemma slice_to_prefix: "prefix (slice_to n xs) xs"
  by (simp add: slice_to_def take_is_prefix)

lemma slice_to_default: "0 \<le> n \<Longrightarrow> slice_to n xs = take (nat n) xs"
  by (simp add: slice_to_def)

text \<open>
  Claim C4, amended. The score of an episode is 2 if the query URL is given, not empty and
  a substring of the episode's URL, plus 1 if the query page type is given, not empty and
  equal to the episode's page type, plus 1 if the episode succeeded. The result is a prefix
  (the first \<open>max_results\<close> entries, for a limit that is not negative) of the ranking of
  the episodes with a positive score; the ranking is a permutation of them in descending
  order of the score, and episodes of equal score stand in it in stored order. An episode
  that matches both the URL and the page type never scores below one that does not match
  both.
\<close>

theorem find_similar_episodes_ranking:
  "find_similar_episodes em q_url q_page_type max_results =
     map snd (slice_to max_results (sort_reverse fst (scored em q_url q_page_type))) \<and>
   prefix (slice_to max_results (sort_reverse fst (scored em q_url q_page_type)))
     (sort_reverse fst (scored em q_url q_page_type)) \<and>
   (0 \<le> max_results \<longrightarrow>
      slice_to max_results (sort_reverse fst (scored em q_url q_page_type)) =
      take (nat max_results) (sort_reverse fst (scored em q_url q_page_type))) \<and>
   sorted_wrt (\<lambda>a b. fst b \<le> fst a) (sort_reverse fst (scored em q_url q_page_type)) \<and>
   (\<forall>k. filter (\<lambda>p. fst p = k) (sort_reverse fst (scored em q_url q_page_type)) =
        filter (\<lambda>p. fst p = k) (scored em q_url q_page_type)) \<and>
   mset (sort_reverse fst (scored em q_url q_page_type)) = mset (scored em q_url q_page_type) \<and>
   scored em q_url q_page_type =
     map (\<lambda>ep. (score q_url q_page_type ep, ep))
       (filter (\<lambda>ep. 0 < score q_url q_page_type ep) (episodes em)) \<and>
   (\<forall>ep. score q_url q_page_type ep =
      (if url_matches q_url ep then 2 else 0) + (if page_type_matches q_page_type ep then 1 else 0) +
      (if success ep then 1 else 0)) \<and>
   (\<forall>ep ep'. url_matches q_url ep \<and> page_type_matches q_page_type ep \<and>
      \<not> (url_matches q_url ep' \<and> page_type_matches q_page_type ep') \<longrightarrow>
      score q_url q_page_type ep' \<le> score q_url q_page_type ep)"
proof -
  have a: "find_similar_episodes em q_url q_page_type max_results =
     map snd (slice_to max_results (sort_reverse fst (scored em q_url q_page_type)))"
    by (simp add: find_similar_episodes_def scored_def)
  have b: "scored em q_url q_page_type =
     map (\<lambda>ep. (score q_url q_page_type ep, ep))
       (filter (\<lambda>ep. 0 < score q_url q_page_type ep) (episodes em))"
    by (simp add: scored_def filter_map comp_def)
  have c: "\<forall>ep ep'. url_matches q_url ep \<and> page_type_matches q_page_type ep \<and>
      \<not> (url_matches q_url ep' \<and> page_type_matches q_page_type ep') \<longrightarrow>
      score q_url q_page_type ep' \<le> score q_url q_page_type ep"
    by (simp add: score_formula)
  show ?thesis
    using a b c sort_reverse_descending [where key = fst] sort_reverse_stable [where key = fst]
      sort_reverse_mset [where key = fst] slice_to_prefix slice_to_default score_formula
    by blast
qed


definition episode_a :: Episode where
  "episode_a =
     \<lparr>eid = ''3f2a9c1e'', url = ''https://www.google.com/'', title = ''Google'',
      page_type = ''search_engine'', actions = [], ep_timestamp = ''2024-01-01T10:00:00'',
      success = False, learned_patterns = []\<rparr>"

definition episode_b :: Episode where
  "episode_b =
     \<lparr>eid = ''7b1d4e2a'', url = ''https://example.org/find'', title = ''Example'',
      page_type = ''search_engine'', actions = [], ep_timestamp = ''2024-01-02T10:00:00'',
      success = True, learned_patterns = []\<rparr>"

definition episode_c :: Episode where
  "episode_c =
     \<lparr>eid = ''c0ffee12'', url = ''https://www.google.com/search'', title = ''Results'',
      page_type = ''search_engine'', actions = [], ep_timestamp = ''2024-01-03T10:00:00'',
      success = True, learned_patterns = []\<rparr>"

definition memory_of :: "Episode list \<Rightarrow> EpisodicMemory" where
  "memory_of eps = \<lparr>episodes = eps, patterns = [], storage_file = Absent\<rparr>"

text \<open>
  Claim C4 as it is written fails for an empty query string. The empty string is a
  substring of every URL, so the claimed score of the episode below is 2 and the claimed
  result holds it; the code scores it 0 and returns nothing.
\<close>

theorem find_similar_episodes_counterexample:
  "score (Some []) None episode_a = 0 \<and>
   claimed_score (Some []) None episode_a = 2 \<and>
   find_similar_episodes (memory_of [episode_a]) (Some []) None 5 = [] \<and>
   claimed_find_similar (memory_of [episode_a]) (Some []) None 5 = [episode_a]"
  by (simp add: score_def claimed_score_def find_similar_episodes_def claimed_find_similar_def
      memory_of_def episode_a_def sort_reverse_def slice_to_def)

lemma scores_abc:
  "score (Some ''google'') (Some ''search_engine'') episode_a = 3"
  "score (Some ''google'') (Some ''search_engine'') episode_b = 2"
  "score (Some ''google'') (Some ''search_engine'') episode_c = 4"
  by (simp_all add: score_def episode_a_def episode_b_def episode_c_def sublist_code)

theorem find_similar_episodes_ranking_witness:
  "find_similar_episodes (memory_of [episode_a, episode_b, episode_c])
     (Some ''google'') (Some ''search_engine'') 2 = [episode_c, episode_a]"
proof -
  have s: "scored (memory_of [episode_a, episode_b, episode_c]) (Some ''google'')
      (Some ''search_engine'') = [(3, episode_a), (2, episode_b), (4, episode_c)]"
    by (simp add: scored_def memory_of_def scores_abc)
  have r: "sort_reverse fst [(3 :: int, episode_a), (2, episode_b), (4, episode_c)] =
      [(4, episode_c), (3, episode_a), (2, episode_b)]"
    by (simp add: sort_reverse_def)
  from find_similar_episodes_ranking [of "memory_of [episode_a, episode_b, episode_c]" "Some ''google''"
      "Some ''search_engine''" 2]
  show ?thesis
    by (simp add: s r slice_to_def)
qed

subsection \<open>The snapshot\<close>






























section \<open>Properties of a task run\<close>
















text \<open>
  A new agent with an empty memory, the configuration that enables reflection, and the
  world in which the language model gives the same reply \<open>n\<close> times.
\<close>

definition fresh_agent :: "Config \<Rightarrow> BrowserAgent" where
  "fresh_agent cfg = new_agent cfg ''You operate a web browser.'' (memory_of [])"

definition reflecting_Config :: Config where
  "reflecting_Config = \<lparr>MAX_STEPS = 8, ENABLE_REFLECTION = Some True\<rparr>"

definition replies :: "nat \<Rightarrow> string list" where
  "replies n = replicate n reply_scroll"

definition scroll_record :: ActionRecord where
  "scroll_record =
     \<lparr>timestamp = ''2024-01-01T00:00:00'', action_type = PStr ''scroll'',
      action_description = PStr ''down'',
      result = failed_action_result
        (PyExn ''TypeError''
           (''BrowserController.scroll() missing 1 required positional argument: '' @
            [CHR 0x27] @ ''direction'' @ [CHR 0x27])) ''scroll'',
      page_state = test_page\<rparr>"


lemma advice_error_empty:
  "advice_error \<lparr>episodes = [], patterns = ps, storage_file = f\<rparr> st = None"
  by (simp add: advice_error_def find_similar_episodes_def slice_to_def sort_reverse_def)

lemmas run_defs =
  execute_task_loop_def run_loop_def loop_body_def after_action_def fresh_agent_def new_agent_def
  memory_of_def repository_Config_def page_state_of_def generate_def decide_next_action_def
  test_env_def now_def call_browser_def advice_error_empty

lemmas step_defs =
  agent_execute_action_def execute_action_def ACTION_MAPPING_def dict_get_def
  add_action_def deque_append_def add_episode_def extract_patterns_def history_actions_def
  generate_id_def save_def Let_def

lemma results_nonempty:
  "step_limit_result ext l n st \<noteq> []" "failed_result e n \<noteq> []"
  "completed_result n st \<noteq> []" "need_input_result q n \<noteq> []"
  by (simp_all add: step_limit_result_def failed_result_def completed_result_def
      need_input_result_def)

lemma test_ext_simps:
  "lower test_ext s = s"
  "md5_hexdigest test_ext s = ''d41d8cd98f00b204e9800998ecf8427e''"
  "set_order test_ext xs = xs"
  "str_of test_ext (PInt i) = decimal (nat i)"
  "parse_action_from_llm test_ext s = None"
  by (simp_all add: test_ext_def)

lemma replies_unfold:
  "replies 8 = [reply_scroll, reply_scroll, reply_scroll, reply_scroll, reply_scroll,
                reply_scroll, reply_scroll, reply_scroll]"
  "replies 3 = [reply_scroll, reply_scroll, reply_scroll]"
  "replies 2 = [reply_scroll, reply_scroll]"
  by (simp_all add: replies_def numeral_eq_Suc)

lemma scroll_decision:
  "parse_llm_response test_ext reply_scroll =
     Some [(''action'', PStr ''scroll''), (''description'', PStr ''down''),
           (''parameters'', PDict []), (''confidence'', PFloat 0.8)]"
  by (simp add: parse_structural [OF search_braces_reply_scroll loads_reply_scroll]
      structural_result_def has_key_def dict_set_def decoded_scroll_def)





text \<open>
  Claim C2 at the configuration of the repository. With \<open>Config(MAX_STEPS=3)\<close> and a
  language model that answers \<open>scroll\<close> every time, the first pass through the loop reads
  \<open>config.ENABLE_REFLECTION\<close>, which \<open>Config\<close> does not have: the run ends with
  the failure result after one step, two replies unused, and not with the step-limit
  result after three.
\<close>

theorem step_limit_run_fails:
  "fst (execute_task_loop test_ext test_af test_env ''find the weather''
     (fresh_agent (repository_Config 3)) (replies 3, 0)) =
     Inr (failed_result missing_config_attribute 1) \<and>
   current_step (fst (snd (execute_task_loop test_ext test_af test_env ''find the weather''
     (fresh_agent (repository_Config 3)) (replies 3, 0)))) = 1 \<and>
   snd (snd (execute_task_loop test_ext test_af test_env ''find the weather''
     (fresh_agent (repository_Config 3)) (replies 3, 0))) = (replies 2, 1)"
  by (simp add: run_defs task_loop.simps results_nonempty scroll_decision step_defs
      replies_unfold)

text \<open>
  Claim C3 at a configuration that enables reflection. The fifth step calls the reflection
  engine with the \<open>ActionRecord\<close> objects of the history; \<open>analyze_failure\<close> asks the first
  of them for \<open>.get\<close> and raises. The run ends with the failure result after five steps,
  the language model was called five times (never for a reflection), and the system
  context is what it was.
\<close>

theorem reflection_run_fails:
  "fst (execute_task_loop test_ext test_af test_env ''find the weather''
     (fresh_agent reflecting_Config) (replies 8, 0)) =
     Inr (failed_result (no_attribute ''ActionRecord'' ''get'') 5) \<and>
   system_context (context_manager (fst (snd (execute_task_loop test_ext test_af test_env
     ''find the weather'' (fresh_agent reflecting_Config) (replies 8, 0))))) =
     system_context (context_manager (fresh_agent reflecting_Config)) \<and>
   snd (snd (execute_task_loop test_ext test_af test_env ''find the weather''
     (fresh_agent reflecting_Config) (replies 8, 0))) = (replies 3, 5)"
  by (simp add: run_defs task_loop.simps results_nonempty scroll_decision step_defs
      reflecting_Config_def replies_unfold perform_reflection_def
      analyze_failure_def get_recent_actions_def last_n_def py_get_def py_lower_def py_in_def
      test_ext_simps sublist_code)

section \<open>Properties of the element finder\<close>








lemma intent_tier_no_intent:
  assumes "\<not> sublist word_search_ru (lower ext desc)" "\<not> sublist ''search'' (lower ext desc)"
    "\<not> sublist word_button_ru (lower ext desc)" "\<not> sublist ''button'' (lower ext desc)"
  shows "intent_tier ext drv desc = None"
  using assms by (simp add: intent_tier_def)














end
